theory Spec2Isabelle
  imports Main "HOL-Library.Word"
begin

unbundle bit_operations_syntax

section \<open>Bytes, buffers and byte order\<close>

type_synonym byte = "8 word"
type_synonym bytes = "byte list"

text \<open>
  A C output buffer of \<open>n\<close> bytes that a primitive fills: whatever the primitive
  produces, the caller sees exactly \<open>n\<close> bytes.
\<close>

definition fit :: "nat \<Rightarrow> bytes \<Rightarrow> bytes" where
  "fit n xs = take n xs @ replicate (n - length xs) 0"

text \<open>
  Reading one byte of a buffer. The callers check lengths first; the only byte that can
  lie past the modelled buffer is the fourth byte that \<open>tls_uint24\<close> loads and shifts
  out again, and it is read as 0.
\<close>

definition byte_at :: "bytes \<Rightarrow> nat \<Rightarrow> byte" where
  "byte_at m i = (if i < length m then m ! i else 0)"

text \<open>\<open>htons\<close>, \<open>htonl\<close> and \<open>cpu_to_be64\<close> followed by a store: the bytes in memory.\<close>

definition be16 :: "16 word \<Rightarrow> bytes" where
  "be16 w = [ucast (drop_bit 8 w), ucast w]"

definition be32 :: "32 word \<Rightarrow> bytes" where
  "be32 w = [ucast (drop_bit 24 w), ucast (drop_bit 16 w), ucast (drop_bit 8 w), ucast w]"

definition be64 :: "64 word \<Rightarrow> bytes" where
  "be64 w = [ucast (drop_bit 56 w), ucast (drop_bit 48 w), ucast (drop_bit 40 w),
             ucast (drop_bit 32 w), ucast (drop_bit 24 w), ucast (drop_bit 16 w),
             ucast (drop_bit 8 w), ucast w]"

text \<open>\<open>ntohs\<close> and \<open>be32_to_cpu\<close> of a load: the value of the bytes in memory.\<close>

definition ntohs_at :: "bytes \<Rightarrow> nat \<Rightarrow> 16 word" where
  "ntohs_at m i = push_bit 8 (ucast (byte_at m i)) OR ucast (byte_at m (i + 1))"

definition be32_to_cpu_at :: "bytes \<Rightarrow> nat \<Rightarrow> 32 word" where
  "be32_to_cpu_at m i =
     push_bit 24 (ucast (byte_at m i)) OR push_bit 16 (ucast (byte_at m (i + 1)))
       OR push_bit 8 (ucast (byte_at m (i + 2))) OR ucast (byte_at m (i + 3))"

section \<open>Utility functions\<close>

text \<open>
  \<open>tls_uint24\<close> loads the 32-bit word at the field (the three bytes of the field and
  the byte after it), converts it from big-endian and shifts right by 8.
  The argument is the memory from the start of the field on.
\<close>

definition tls_uint24 :: "bytes \<Rightarrow> 32 word" where
  "tls_uint24 field24 = drop_bit 8 (be32_to_cpu_at field24 0)"

text \<open>
  \<open>tls_set_uint24\<close> ORs \<open>cpu_to_be32 (value << 8)\<close> into the 32-bit word at the field.
  Byte swapping commutes with OR, so the bytes in memory afterwards are the big-endian
  bytes of (old big-endian value OR (value << 8)); the byte after the field is ORed with 0.
  \<open>value\<close> is an \<open>unsigned long\<close>; \<open>cpu_to_be32\<close> takes 32 bits of it.
  The result is the memory from the start of the field on, with its length unchanged.
\<close>

definition tls_set_uint24 :: "bytes \<Rightarrow> 32 word \<Rightarrow> bytes" where
  "tls_set_uint24 field24 v =
     take (length field24) (be32 (be32_to_cpu_at field24 0 OR push_bit 8 v)) @ drop 4 field24"

section \<open>Algorithms and cipher suites\<close>

datatype error =
    ENOMEM | ENOTSUP | EPROTO | EINVAL | EPERM | EIO | ENOTCONN
  | EACCES_INCOMPLETE | EACCES_WRONG_NAME

text \<open>A return status code: \<open>None\<close> is 0, \<open>Some e\<close> is \<open>-e\<close>.\<close>

type_synonym rc = "error option"

text \<open>
  The algorithm structures are identified by what they point to. Their sizes come from
  the headers of the primitives: the digest sizes of MD5, SHA-1 and SHA-256, the
  AES block size, and the sizes the null algorithms declare.
\<close>

datatype digest_algorithm =
  digest_null | md5_algorithm | sha1_algorithm | sha256_algorithm | md5_sha1_algorithm

datatype cipher_algorithm = cipher_null | aes_cbc_algorithm

datatype pubkey_algorithm = pubkey_null | rsa_algorithm

fun digestsize :: "digest_algorithm \<Rightarrow> nat" where
  "digestsize digest_null = 0"
| "digestsize md5_algorithm = 16"
| "digestsize sha1_algorithm = 20"
| "digestsize sha256_algorithm = 32"
| "digestsize md5_sha1_algorithm = 16 + 20"

fun blocksize :: "cipher_algorithm \<Rightarrow> nat" where
  "blocksize cipher_null = 1"
| "blocksize aes_cbc_algorithm = 16"

definition is_stream_cipher :: "cipher_algorithm \<Rightarrow> bool" where
  "is_stream_cipher c = (blocksize c = 1)"

record tls_cipher_suite =
  code :: "16 word"
  key_len :: nat
  pubkey :: pubkey_algorithm
  cipher :: cipher_algorithm
  digest :: digest_algorithm

definition tls_cipher_suite_null :: tls_cipher_suite where
  "tls_cipher_suite_null =
     \<lparr>code = 0, key_len = 0, pubkey = pubkey_null, cipher = cipher_null, digest = digest_null\<rparr>"

definition TLS_RSA_WITH_AES_256_CBC_SHA256 :: "16 word" where
  "TLS_RSA_WITH_AES_256_CBC_SHA256 = 0x003d"
definition TLS_RSA_WITH_AES_128_CBC_SHA256 :: "16 word" where
  "TLS_RSA_WITH_AES_128_CBC_SHA256 = 0x003c"
definition TLS_RSA_WITH_AES_256_CBC_SHA :: "16 word" where
  "TLS_RSA_WITH_AES_256_CBC_SHA = 0x0035"
definition TLS_RSA_WITH_AES_128_CBC_SHA :: "16 word" where
  "TLS_RSA_WITH_AES_128_CBC_SHA = 0x002f"

definition tls_cipher_suites :: "tls_cipher_suite list" where
  "tls_cipher_suites =
     [\<lparr>code = TLS_RSA_WITH_AES_256_CBC_SHA256, key_len = 256 div 8, pubkey = rsa_algorithm,
       cipher = aes_cbc_algorithm, digest = sha256_algorithm\<rparr>,
      \<lparr>code = TLS_RSA_WITH_AES_128_CBC_SHA256, key_len = 128 div 8, pubkey = rsa_algorithm,
       cipher = aes_cbc_algorithm, digest = sha256_algorithm\<rparr>,
      \<lparr>code = TLS_RSA_WITH_AES_256_CBC_SHA, key_len = 256 div 8, pubkey = rsa_algorithm,
       cipher = aes_cbc_algorithm, digest = sha1_algorithm\<rparr>,
      \<lparr>code = TLS_RSA_WITH_AES_128_CBC_SHA, key_len = 128 div 8, pubkey = rsa_algorithm,
       cipher = aes_cbc_algorithm, digest = sha1_algorithm\<rparr>]"

text \<open>
  A cipher specification. The contexts and the MAC secret live in one dynamic block;
  each is modelled by its bytes, and a context is copied as a whole
  (\<open>memcpy\<close> of \<open>ctxsize\<close> bytes).
\<close>

record tls_cipherspec =
  suite :: tls_cipher_suite
  pubkey_ctx :: bytes
  cipher_ctx :: bytes
  cipher_next_ctx :: bytes
  mac_secret :: bytes

section \<open>External collaborators\<close>

text \<open>
  The primitives are external collaborators referenced only by contract (digests, HMAC,
  the symmetric cipher, the public-key algorithm, the random-bit generator, X.509 parsing
  and chain validation, the data-transfer interfaces, the allocator and the clock).
  Their code is not part of the TLS source file, so they are parameters of the model:
  each is a field of one record that every function receives, and every theorem holds
  for all values of it. A context is the memory the primitive keeps its state in, so
  the primitives that change their context return the new one.
\<close>

record x509_certificate =
  signature_algorithm_pubkey :: pubkey_algorithm
  subject_name :: bytes
  subject_public_key_raw :: bytes

record collaborators =
  digest_hash :: "digest_algorithm \<Rightarrow> bytes \<Rightarrow> bytes"
  hmac_hash :: "digest_algorithm \<Rightarrow> bytes \<Rightarrow> bytes \<Rightarrow> bytes"
  cipher_ctxsize :: "cipher_algorithm \<Rightarrow> nat"
  pubkey_ctxsize :: "pubkey_algorithm \<Rightarrow> nat"
  cipher_setkey :: "cipher_algorithm \<Rightarrow> bytes \<Rightarrow> bytes \<Rightarrow> rc \<times> bytes"
  cipher_setiv :: "cipher_algorithm \<Rightarrow> bytes \<Rightarrow> bytes \<Rightarrow> bytes"
  cipher_encrypt :: "cipher_algorithm \<Rightarrow> bytes \<Rightarrow> bytes \<Rightarrow> bytes \<times> bytes"
  cipher_decrypt :: "cipher_algorithm \<Rightarrow> bytes \<Rightarrow> bytes \<Rightarrow> bytes \<times> bytes"
  pubkey_init :: "pubkey_algorithm \<Rightarrow> bytes \<Rightarrow> bytes \<Rightarrow> rc \<times> bytes"
  pubkey_max_len :: "pubkey_algorithm \<Rightarrow> bytes \<Rightarrow> nat"
  pubkey_encrypt :: "pubkey_algorithm \<Rightarrow> bytes \<Rightarrow> bytes \<Rightarrow> error + bytes"
  pubkey_sign :: "pubkey_algorithm \<Rightarrow> bytes \<Rightarrow> digest_algorithm \<Rightarrow> bytes \<Rightarrow> error + bytes"
  rbg_generate :: "nat \<Rightarrow> rc \<times> bytes"
  x509_parse :: "bytes \<Rightarrow> error + x509_certificate"
  x509_validate_chain ::
    "(nat \<times> nat \<Rightarrow> (error + x509_certificate) \<times> (nat \<times> nat)) \<Rightarrow> nat \<times> nat \<Rightarrow> 32 word
       \<Rightarrow> error + x509_certificate"
  time_now :: "32 word"
  malloc_ok :: "nat \<Rightarrow> bool"
  xfer_alloc_iob_ok :: "nat \<Rightarrow> bool"
  xfer_deliver_iob :: "bytes \<Rightarrow> rc"
  xfer_deliver_raw :: "bytes \<Rightarrow> rc"
  xfer_window :: nat
  client_certificate :: bytes
  client_private_key :: bytes
  sizeof_tls_session :: nat

text \<open>
  A digest context is modelled by the bytes fed to it since \<open>digest_init\<close>, an HMAC
  context by the bytes fed to it since \<open>hmac_init\<close>; the key is given again to
  \<open>hmac_final\<close>. The output buffers have \<open>digestsize\<close> bytes.
\<close>

definition digest_init :: bytes where
  "digest_init = []"

definition digest_update :: "bytes \<Rightarrow> bytes \<Rightarrow> bytes" where
  "digest_update ctx data = ctx @ data"

definition digest_final :: "collaborators \<Rightarrow> digest_algorithm \<Rightarrow> bytes \<Rightarrow> bytes" where
  "digest_final env d ctx = fit (digestsize d) (digest_hash env d ctx)"

definition hmac_init :: bytes where
  "hmac_init = []"

definition hmac_update :: "bytes \<Rightarrow> bytes \<Rightarrow> bytes" where
  "hmac_update ctx data = ctx @ data"

definition hmac_final :: "collaborators \<Rightarrow> digest_algorithm \<Rightarrow> bytes \<Rightarrow> bytes \<Rightarrow> bytes" where
  "hmac_final env d ctx key = fit (digestsize d) (hmac_hash env d key ctx)"

section \<open>Hybrid MD5+SHA1 hash as used by TLSv1.1 and earlier\<close>

record md5_sha1_context =
  md5 :: bytes
  sha1 :: bytes

definition md5_sha1_init :: md5_sha1_context where
  "md5_sha1_init = \<lparr>md5 = digest_init, sha1 = digest_init\<rparr>"

definition md5_sha1_update :: "md5_sha1_context \<Rightarrow> bytes \<Rightarrow> md5_sha1_context" where
  "md5_sha1_update context data =
     context\<lparr>md5 := digest_update (md5 context) data, sha1 := digest_update (sha1 context) data\<rparr>"

definition md5_sha1_final :: "collaborators \<Rightarrow> md5_sha1_context \<Rightarrow> bytes" where
  "md5_sha1_final env context =
     digest_final env md5_algorithm (md5 context) @ digest_final env sha1_algorithm (sha1 context)"

section \<open>Session state\<close>

datatype tls_rx_state = TLS_RX_HEADER | TLS_RX_DATA

text \<open>\<open>handshake_ctx\<close> points at one of the two transcript contexts of the session.\<close>

datatype handshake_ctx_ptr = Handshake_md5_sha1_ctx | Handshake_sha256_ctx

record tls_header =
  hdr_type :: byte
  hdr_version :: "16 word"
  hdr_length :: "16 word"

record tls_session =
  name :: string
  version :: "16 word"
  tx_cipherspec :: tls_cipherspec
  tx_cipherspec_pending :: tls_cipherspec
  rx_cipherspec :: tls_cipherspec
  rx_cipherspec_pending :: tls_cipherspec
  pre_master_secret :: bytes
  master_secret :: bytes
  server_random :: bytes
  client_random :: bytes
  handshake_md5_sha1_ctx :: md5_sha1_context
  handshake_sha256_ctx :: bytes
  handshake_digest :: digest_algorithm
  handshake_ctx :: handshake_ctx_ptr
  verify_pubkey :: pubkey_algorithm
  tx_seq :: "64 word"
  tx_pending :: "32 word"
  tx_ready :: bool
  rx_seq :: "64 word"
  rx_state :: tls_rx_state
  rx_rcvd :: "32 word"
  rx_header :: bytes
  rx_data :: "bytes option"
  process_scheduled :: bool
  cipherstream_sent :: "bytes list"
  plainstream_delivered :: "bytes list"
  plainstream_window_changes :: nat
  shutdown_rc :: "rc option"

definition TLS_VERSION_TLS_1_0 :: "16 word" where "TLS_VERSION_TLS_1_0 = 0x0301"
definition TLS_VERSION_TLS_1_1 :: "16 word" where "TLS_VERSION_TLS_1_1 = 0x0302"
definition TLS_VERSION_TLS_1_2 :: "16 word" where "TLS_VERSION_TLS_1_2 = 0x0303"

definition TLS_TYPE_CHANGE_CIPHER :: "32 word" where "TLS_TYPE_CHANGE_CIPHER = 20"
definition TLS_TYPE_ALERT :: "32 word" where "TLS_TYPE_ALERT = 21"
definition TLS_TYPE_HANDSHAKE :: "32 word" where "TLS_TYPE_HANDSHAKE = 22"
definition TLS_TYPE_DATA :: "32 word" where "TLS_TYPE_DATA = 23"

definition TLS_HELLO_REQUEST :: byte where "TLS_HELLO_REQUEST = 0"
definition TLS_CLIENT_HELLO :: byte where "TLS_CLIENT_HELLO = 1"
definition TLS_SERVER_HELLO :: byte where "TLS_SERVER_HELLO = 2"
definition TLS_CERTIFICATE :: byte where "TLS_CERTIFICATE = 11"
definition TLS_SERVER_KEY_EXCHANGE :: byte where "TLS_SERVER_KEY_EXCHANGE = 12"
definition TLS_CERTIFICATE_REQUEST :: byte where "TLS_CERTIFICATE_REQUEST = 13"
definition TLS_SERVER_HELLO_DONE :: byte where "TLS_SERVER_HELLO_DONE = 14"
definition TLS_CERTIFICATE_VERIFY :: byte where "TLS_CERTIFICATE_VERIFY = 15"
definition TLS_CLIENT_KEY_EXCHANGE :: byte where "TLS_CLIENT_KEY_EXCHANGE = 16"
definition TLS_FINISHED :: byte where "TLS_FINISHED = 20"

definition TLS_ALERT_WARNING :: byte where "TLS_ALERT_WARNING = 1"
definition TLS_ALERT_FATAL :: byte where "TLS_ALERT_FATAL = 2"

definition TLS_SERVER_NAME :: "16 word" where "TLS_SERVER_NAME = 0"
definition TLS_SERVER_NAME_HOST_NAME :: byte where "TLS_SERVER_NAME_HOST_NAME = 0"

definition TLS_RSA_ALGORITHM :: byte where "TLS_RSA_ALGORITHM = 1"
definition TLS_SHA256_ALGORITHM :: byte where "TLS_SHA256_ALGORITHM = 4"

definition TLS_TX_CLIENT_HELLO :: "32 word" where "TLS_TX_CLIENT_HELLO = 0x0001"
definition TLS_TX_CERTIFICATE :: "32 word" where "TLS_TX_CERTIFICATE = 0x0002"
definition TLS_TX_CLIENT_KEY_EXCHANGE :: "32 word" where "TLS_TX_CLIENT_KEY_EXCHANGE = 0x0004"
definition TLS_TX_CERTIFICATE_VERIFY :: "32 word" where "TLS_TX_CERTIFICATE_VERIFY = 0x0008"
definition TLS_TX_CHANGE_CIPHER :: "32 word" where "TLS_TX_CHANGE_CIPHER = 0x0010"
definition TLS_TX_FINISHED :: "32 word" where "TLS_TX_FINISHED = 0x0020"

section \<open>Cleanup functions\<close>

definition tls_close :: "tls_session \<Rightarrow> rc \<Rightarrow> tls_session" where
  "tls_close tls rc = tls\<lparr>process_scheduled := False, shutdown_rc := Some rc\<rparr>"

section \<open>Random number generation\<close>

text \<open>The status code, and the contents of the buffer of \<open>len\<close> bytes afterwards.\<close>

definition tls_generate_random :: "collaborators \<Rightarrow> nat \<Rightarrow> rc \<times> bytes" where
  "tls_generate_random env len =
     (case rbg_generate env len of (rc, data) \<Rightarrow> (rc, fit len data))"

section \<open>Pseudo-random function\<close>

text \<open>The \<open>va_list\<close> of (data, len) pairs is the list of the data.\<close>

fun tls_hmac_update_va :: "bytes \<Rightarrow> bytes list \<Rightarrow> bytes" where
  "tls_hmac_update_va digest_ctx [] = digest_ctx"
| "tls_hmac_update_va digest_ctx (data # args) =
     tls_hmac_update_va (hmac_update digest_ctx data) args"

text \<open>
  The loop of \<open>tls_p_hash_va\<close>, with its variables \<open>a\<close>, \<open>frag_len\<close>, the output
  written so far and \<open>out_len\<close>. With a digest of size 0 it would never finish, so the
  result is optional.
\<close>

partial_function (option) tls_p_hash_va_loop ::
  "collaborators \<Rightarrow> digest_algorithm \<Rightarrow> bytes \<Rightarrow> bytes list \<Rightarrow> bytes \<Rightarrow> nat \<Rightarrow> bytes \<Rightarrow> nat
     \<Rightarrow> bytes option" where
  "tls_p_hash_va_loop env digest' secret seeds a frag_len out out_len =
     (if out_len = 0 then Some out
      else
        let digest_ctx = hmac_update hmac_init a;
            digest_ctx_partial = digest_ctx;
            digest_ctx = tls_hmac_update_va digest_ctx seeds;
            out_tmp = hmac_final env digest' digest_ctx secret;
            frag_len = (if frag_len > out_len then out_len else frag_len);
            out = out @ take frag_len out_tmp;
            a = hmac_final env digest' digest_ctx_partial secret
        in tls_p_hash_va_loop env digest' secret seeds a frag_len out (out_len - frag_len))"

declare tls_p_hash_va_loop.simps [code]

definition tls_p_hash_va ::
  "collaborators \<Rightarrow> digest_algorithm \<Rightarrow> bytes \<Rightarrow> nat \<Rightarrow> bytes list \<Rightarrow> bytes option" where
  "tls_p_hash_va env digest' secret out_len seeds =
     (let frag_len = digestsize digest';
          digest_ctx = tls_hmac_update_va hmac_init seeds;
          a = hmac_final env digest' digest_ctx secret
      in tls_p_hash_va_loop env digest' secret seeds a frag_len [] out_len)"

text \<open>The final loop of \<open>tls_prf\<close>: \<open>out[i] ^= buf[i]\<close> for \<open>i < out_len\<close>.\<close>

function tls_prf_xor :: "bytes \<Rightarrow> bytes \<Rightarrow> nat \<Rightarrow> nat \<Rightarrow> bytes" where
  "tls_prf_xor out buf out_len i =
     (if i < out_len
      then tls_prf_xor (out[i := byte_at out i XOR byte_at buf i]) buf out_len (i + 1)
      else out)"
  by pat_completeness auto
termination
  by (relation "measure (\<lambda>(out, buf, out_len, i). out_len - i)") auto

declare tls_prf_xor.simps [simp del]

text \<open>
  \<open>tls_prf\<close> calls \<open>tls_p_hash_va\<close> with SHA-256, MD5 and SHA-1 only, whose digest sizes
  are positive, so each call returns (lemma \<open>tls_p_hash_va_returns\<close> below) and the
  \<open>None\<close> branches here are never taken.
\<close>

definition tls_prf :: "collaborators \<Rightarrow> tls_session \<Rightarrow> bytes \<Rightarrow> nat \<Rightarrow> bytes list \<Rightarrow> bytes" where
  "tls_prf env tls secret out_len seeds =
     (let secret_len = length secret
      in if version tls \<ge> TLS_VERSION_TLS_1_2
         then (case tls_p_hash_va env sha256_algorithm secret out_len seeds of
                 Some out \<Rightarrow> out | None \<Rightarrow> [])
         else
           let subsecret_len = (secret_len + 1) div 2;
               md5_secret = take subsecret_len secret;
               sha1_secret = take subsecret_len (drop (secret_len - subsecret_len) secret)
           in case tls_p_hash_va env md5_algorithm md5_secret out_len seeds of
                None \<Rightarrow> []
              | Some out \<Rightarrow>
                  (case tls_p_hash_va env sha1_algorithm sha1_secret out_len seeds of
                     None \<Rightarrow> []
                   | Some buf \<Rightarrow> tls_prf_xor out buf out_len 0))"

text \<open>The label is a string literal; its bytes, without the terminating NUL, come first.\<close>

definition label_bytes :: "string \<Rightarrow> bytes" where
  "label_bytes label = map (\<lambda>c. of_nat (of_char c)) label"

definition tls_prf_label ::
  "collaborators \<Rightarrow> tls_session \<Rightarrow> bytes \<Rightarrow> nat \<Rightarrow> string \<Rightarrow> bytes list \<Rightarrow> bytes" where
  "tls_prf_label env tls secret out_len label seeds =
     tls_prf env tls secret out_len (label_bytes label # seeds)"

section \<open>Secret management\<close>

text \<open>\<open>sizeof (tls->master_secret)\<close> is 48.\<close>

definition tls_generate_master_secret :: "collaborators \<Rightarrow> tls_session \<Rightarrow> tls_session" where
  "tls_generate_master_secret env tls =
     tls\<lparr>master_secret :=
           tls_prf_label env tls (pre_master_secret tls) 48 ''master secret''
             [client_random tls, server_random tls]\<rparr>"

text \<open>
  \<open>tls_generate_keys\<close> walks the pointer \<open>key\<close> through the key block. A failing
  \<open>cipher_setkey\<close> returns at once, with what was installed before it.
\<close>

definition tls_generate_keys :: "collaborators \<Rightarrow> tls_session \<Rightarrow> rc \<times> tls_session" where
  "tls_generate_keys env tls =
     (let tx_cipherspec = tx_cipherspec_pending tls;
          rx_cipherspec = rx_cipherspec_pending tls;
          hash_size = digestsize (digest (suite tx_cipherspec));
          key_size = key_len (suite tx_cipherspec);
          iv_size = blocksize (cipher (suite tx_cipherspec));
          total = 2 * (hash_size + key_size + iv_size);
          key_block = tls_prf_label env tls (master_secret tls) total ''key expansion''
                        [server_random tls, client_random tls];
          key = key_block;
          tx_cipherspec = tx_cipherspec\<lparr>mac_secret := take hash_size key\<rparr>;
          key = drop hash_size key;
          rx_cipherspec = rx_cipherspec\<lparr>mac_secret := take hash_size key\<rparr>;
          key = drop hash_size key;
          tls = tls\<lparr>tx_cipherspec_pending := tx_cipherspec, rx_cipherspec_pending := rx_cipherspec\<rparr>
      in case cipher_setkey env (cipher (suite tx_cipherspec)) (cipher_ctx tx_cipherspec)
                (take key_size key) of
           (Some rc, ctx) \<Rightarrow>
             (Some rc, tls\<lparr>tx_cipherspec_pending := tx_cipherspec\<lparr>cipher_ctx := ctx\<rparr>\<rparr>)
         | (None, ctx) \<Rightarrow>
             let tx_cipherspec = tx_cipherspec\<lparr>cipher_ctx := ctx\<rparr>;
                 tls = tls\<lparr>tx_cipherspec_pending := tx_cipherspec\<rparr>;
                 key = drop key_size key
             in case cipher_setkey env (cipher (suite rx_cipherspec)) (cipher_ctx rx_cipherspec)
                       (take key_size key) of
                  (Some rc, ctx) \<Rightarrow>
                    (Some rc, tls\<lparr>rx_cipherspec_pending := rx_cipherspec\<lparr>cipher_ctx := ctx\<rparr>\<rparr>)
                | (None, ctx) \<Rightarrow>
                    let rx_cipherspec = rx_cipherspec\<lparr>cipher_ctx := ctx\<rparr>;
                        key = drop key_size key;
                        tx_cipherspec = tx_cipherspec\<lparr>cipher_ctx :=
                          cipher_setiv env (cipher (suite tx_cipherspec)) (cipher_ctx tx_cipherspec)
                            (take iv_size key)\<rparr>;
                        key = drop iv_size key;
                        rx_cipherspec = rx_cipherspec\<lparr>cipher_ctx :=
                          cipher_setiv env (cipher (suite rx_cipherspec)) (cipher_ctx rx_cipherspec)
                            (take iv_size key)\<rparr>
                    in (None, tls\<lparr>tx_cipherspec_pending := tx_cipherspec,
                                   rx_cipherspec_pending := rx_cipherspec\<rparr>))"

section \<open>Cipher suite management\<close>

definition tls_find_cipher_suite :: "16 word \<Rightarrow> tls_cipher_suite option" where
  "tls_find_cipher_suite cipher_suite =
     find (\<lambda>suite'. code suite' = cipher_suite) tls_cipher_suites"

text \<open>
  \<open>tls_clear_cipher\<close> finalises the public key, frees the dynamic block and zeroes the
  structure: no context and no MAC secret are left.
\<close>

definition tls_clear_cipher :: "tls_cipherspec \<Rightarrow> tls_cipherspec" where
  "tls_clear_cipher cipherspec =
     \<lparr>suite = tls_cipher_suite_null, pubkey_ctx = [], cipher_ctx = [],
      cipher_next_ctx = [], mac_secret = []\<rparr>"

definition tls_set_cipher ::
  "collaborators \<Rightarrow> tls_cipherspec \<Rightarrow> tls_cipher_suite \<Rightarrow> rc \<times> tls_cipherspec" where
  "tls_set_cipher env cipherspec suite' =
     (let pubkey' = pubkey suite';
          cipher' = cipher suite';
          digest' = digest suite';
          cipherspec = tls_clear_cipher cipherspec;
          total = pubkey_ctxsize env pubkey' + 2 * cipher_ctxsize env cipher' + digestsize digest'
      in if \<not> malloc_ok env total then (Some ENOMEM, cipherspec)
         else (None, \<lparr>suite = suite',
                      pubkey_ctx = replicate (pubkey_ctxsize env pubkey') 0,
                      cipher_ctx = replicate (cipher_ctxsize env cipher') 0,
                      cipher_next_ctx = replicate (cipher_ctxsize env cipher') 0,
                      mac_secret = replicate (digestsize digest') 0\<rparr>))"

definition tls_select_cipher :: "collaborators \<Rightarrow> tls_session \<Rightarrow> 16 word \<Rightarrow> rc \<times> tls_session" where
  "tls_select_cipher env tls cipher_suite =
     (case tls_find_cipher_suite cipher_suite of
        None \<Rightarrow> (Some ENOTSUP, tls)
      | Some suite' \<Rightarrow>
          (case tls_set_cipher env (tx_cipherspec_pending tls) suite' of
             (Some rc, spec) \<Rightarrow> (Some rc, tls\<lparr>tx_cipherspec_pending := spec\<rparr>)
           | (None, spec) \<Rightarrow>
               let tls = tls\<lparr>tx_cipherspec_pending := spec\<rparr>
               in case tls_set_cipher env (rx_cipherspec_pending tls) suite' of
                    (rc, spec) \<Rightarrow> (rc, tls\<lparr>rx_cipherspec_pending := spec\<rparr>)))"

text \<open>
  \<open>tls_change_cipher\<close> returns the status code, the pending and the active
  specification, in this order.
\<close>

definition tls_change_cipher ::
  "tls_cipherspec \<Rightarrow> tls_cipherspec \<Rightarrow> rc \<times> tls_cipherspec \<times> tls_cipherspec" where
  "tls_change_cipher pending active =
     (if suite pending = tls_cipher_suite_null then (Some ENOTSUP, pending, active)
      else let active = tls_clear_cipher active
           in (None, active, pending))"

section \<open>Handshake verification\<close>

definition tls_add_handshake :: "tls_session \<Rightarrow> bytes \<Rightarrow> tls_session" where
  "tls_add_handshake tls data =
     tls\<lparr>handshake_md5_sha1_ctx := md5_sha1_update (handshake_md5_sha1_ctx tls) data,
         handshake_sha256_ctx := digest_update (handshake_sha256_ctx tls) data\<rparr>"


text \<open>
  \<open>tls_verify_handshake\<close> copies the context \<open>handshake_ctx\<close> points at to the stack
  and finalises the copy through \<open>digest->final\<close>; it returns the digest and the
  session. \<open>handshake_digest\<close> and \<open>handshake_ctx\<close> are only ever assigned
  together (in \<open>add_tls\<close> and \<open>tls_new_server_hello\<close>), so a context is never read
  through the other algorithm's layout; the model reads it as one byte string then.
\<close>

datatype digest_ctx = Md5_sha1_ctx md5_sha1_context | Digest_ctx bytes

fun digest_final_via :: "collaborators \<Rightarrow> digest_algorithm \<Rightarrow> digest_ctx \<Rightarrow> bytes" where
  "digest_final_via env md5_sha1_algorithm (Md5_sha1_ctx context) = md5_sha1_final env context"
| "digest_final_via env md5_sha1_algorithm (Digest_ctx ctx) =
     md5_sha1_final env \<lparr>md5 = ctx, sha1 = ctx\<rparr>"
| "digest_final_via env d (Digest_ctx ctx) = digest_final env d ctx"
| "digest_final_via env d (Md5_sha1_ctx context) = digest_final env d (md5 context @ sha1 context)"

definition tls_verify_handshake :: "collaborators \<Rightarrow> tls_session \<Rightarrow> bytes \<times> tls_session" where
  "tls_verify_handshake env tls =
     (let digest' = handshake_digest tls;
          ctx = (case handshake_ctx tls of
                   Handshake_md5_sha1_ctx \<Rightarrow> Md5_sha1_ctx (handshake_md5_sha1_ctx tls)
                 | Handshake_sha256_ctx \<Rightarrow> Digest_ctx (handshake_sha256_ctx tls));
          out = digest_final_via env digest' ctx
      in (out, tls))"

section \<open>Record encryption\<close>

definition tls_tx_resume :: "tls_session \<Rightarrow> tls_session" where
  "tls_tx_resume tls = tls\<lparr>process_scheduled := True\<rparr>"

text \<open>The five bytes of a \<open>struct tls_header\<close> in memory.\<close>

definition tls_header_bytes :: "tls_header \<Rightarrow> bytes" where
  "tls_header_bytes tlshdr =
     hdr_type tlshdr # be16 (hdr_version tlshdr) @ be16 (hdr_length tlshdr)"

definition tls_hmac ::
  "collaborators \<Rightarrow> tls_cipherspec \<Rightarrow> 64 word \<Rightarrow> tls_header \<Rightarrow> bytes \<Rightarrow> bytes" where
  "tls_hmac env cipherspec seq tlshdr data =
     (let digest' = digest (suite cipherspec);
          digest_ctx = hmac_init;
          digest_ctx = hmac_update digest_ctx (be64 seq);
          digest_ctx = hmac_update digest_ctx (tls_header_bytes tlshdr);
          digest_ctx = hmac_update digest_ctx data
      in hmac_final env digest' digest_ctx (mac_secret cipherspec))"

text \<open>The assembled plaintext, or \<open>None\<close> when \<open>malloc\<close> fails.\<close>

definition tls_assemble_stream ::
  "collaborators \<Rightarrow> tls_session \<Rightarrow> bytes \<Rightarrow> bytes \<Rightarrow> bytes option" where
  "tls_assemble_stream env tls data digest' =
     (let len = length data;
          mac_len = digestsize (digest (suite (tx_cipherspec tls)));
          plaintext_len = len + mac_len
      in if \<not> malloc_ok env plaintext_len then None
         else Some (data @ fit mac_len digest'))"

text \<open>
  \<open>size_t\<close> is 32 bits wide here; \<open>padding_len\<close> is computed in it. The status of
  \<open>tls_generate_random\<close> is not looked at.
\<close>

definition tls_assemble_block ::
  "collaborators \<Rightarrow> tls_session \<Rightarrow> bytes \<Rightarrow> bytes \<Rightarrow> bytes option" where
  "tls_assemble_block env tls data digest' =
     (let len = length data;
          blocksize' = blocksize (cipher (suite (tx_cipherspec tls)));
          mac_len = digestsize (digest (suite (tx_cipherspec tls)));
          iv_len = (if version tls \<ge> TLS_VERSION_TLS_1_1 then blocksize' else 0);
          padding_len = unat ((of_nat (blocksize' - 1) :: 32 word)
                                AND - (of_nat (iv_len + len + mac_len + 1)));
          plaintext_len = iv_len + len + mac_len + padding_len + 1
      in if \<not> malloc_ok env plaintext_len then None
         else
           let iv = snd (tls_generate_random env iv_len)
           in Some (iv @ data @ fit mac_len digest'
                      @ replicate (padding_len + 1) (of_nat padding_len)))"

definition tls_send_plaintext ::
  "collaborators \<Rightarrow> tls_session \<Rightarrow> 32 word \<Rightarrow> bytes \<Rightarrow> rc \<times> tls_session" where
  "tls_send_plaintext env tls type data =
     (let cipherspec = tx_cipherspec tls;
          cipher' = cipher (suite cipherspec);
          len = length data;
          plaintext_tlshdr = \<lparr>hdr_type = ucast type, hdr_version = version tls,
                              hdr_length = of_nat len\<rparr>;
          mac = tls_hmac env cipherspec (tx_seq tls) plaintext_tlshdr data;
          plaintext = (if is_stream_cipher cipher'
                       then tls_assemble_stream env tls data mac
                       else tls_assemble_block env tls data mac)
      in case plaintext of
           None \<Rightarrow> (Some ENOMEM, tls)
         | Some plaintext \<Rightarrow>
             let plaintext_len = length plaintext;
                 ciphertext_len = 5 + plaintext_len
             in if \<not> xfer_alloc_iob_ok env ciphertext_len then (Some ENOMEM, tls)
                else
                  let tlshdr = \<lparr>hdr_type = ucast type, hdr_version = version tls,
                                 hdr_length = of_nat plaintext_len\<rparr>;
                      cipherspec = cipherspec\<lparr>cipher_next_ctx := cipher_ctx cipherspec\<rparr>;
                      encrypted = cipher_encrypt env cipher' (cipher_next_ctx cipherspec) plaintext;
                      cipherspec = cipherspec\<lparr>cipher_next_ctx := fst encrypted\<rparr>;
                      ciphertext = tls_header_bytes tlshdr @ fit plaintext_len (snd encrypted);
                      tls = tls\<lparr>tx_cipherspec := cipherspec\<rparr>
                  in case xfer_deliver_iob env ciphertext of
                       Some rc \<Rightarrow> (Some rc, tls)
                     | None \<Rightarrow>
                         let tls = tls\<lparr>cipherstream_sent := cipherstream_sent tls @ [ciphertext]\<rparr>;
                             tls = tls\<lparr>tx_seq := tx_seq tls + 1\<rparr>;
                             tls = tls\<lparr>tx_cipherspec := (tx_cipherspec tls)
                                      \<lparr>cipher_ctx := cipher_next_ctx (tx_cipherspec tls)\<rparr>\<rparr>
                         in (None, tls))"

definition tls_send_handshake :: "collaborators \<Rightarrow> tls_session \<Rightarrow> bytes \<Rightarrow> rc \<times> tls_session" where
  "tls_send_handshake env tls data =
     (let tls = tls_add_handshake tls data
      in tls_send_plaintext env tls TLS_TYPE_HANDSHAKE data)"

section \<open>Handshake records sent\<close>

text \<open>
  The first four bytes of a handshake record in memory:
  \<open>cpu_to_le32 (type) | htonl (length)\<close>.
\<close>

definition tls_type_length :: "byte \<Rightarrow> nat \<Rightarrow> bytes" where
  "tls_type_length type len =
     (let l = be32 (of_nat len) in (type OR byte_at l 0) # drop 1 l)"

text \<open>Applying a store to the memory at an offset of a buffer.\<close>

definition at_offset :: "nat \<Rightarrow> (bytes \<Rightarrow> bytes) \<Rightarrow> bytes \<Rightarrow> bytes" where
  "at_offset off f mem = take off mem @ f (drop off mem)"

definition memcpy :: "bytes \<Rightarrow> bytes \<Rightarrow> bytes" where
  "memcpy src dest = src @ drop (length src) dest"

definition tls_send_client_hello :: "collaborators \<Rightarrow> tls_session \<Rightarrow> rc \<times> tls_session" where
  "tls_send_client_hello env tls =
     (let name' = label_bytes (name tls);
          list0 = TLS_SERVER_NAME_HOST_NAME # be16 (of_nat (length name')) @ name';
          server_name = be16 (of_nat (length list0)) @ list0;
          extensions = be16 TLS_SERVER_NAME @ be16 (of_nat (length server_name)) @ server_name;
          cipher_suites = concat (map (\<lambda>suite'. be16 (code suite')) tls_cipher_suites);
          compression_methods = [0];
          body = be16 (version tls) @ client_random tls @ [0]
                   @ be16 (of_nat (length cipher_suites)) @ cipher_suites
                   @ [of_nat (length compression_methods)] @ compression_methods
                   @ be16 (of_nat (length extensions)) @ extensions;
          hello = tls_type_length TLS_CLIENT_HELLO (length body) @ body
      in tls_send_handshake env tls hello)"

definition tls_send_certificate :: "collaborators \<Rightarrow> tls_session \<Rightarrow> rc \<times> tls_session" where
  "tls_send_certificate env tls =
     (let num_certificates = (if client_certificate env \<noteq> [] then 1 else 0 :: nat);
          certificates_size = num_certificates * (3 + length (client_certificate env));
          size = 4 + 3 + certificates_size;
          parsed = (if num_certificates \<noteq> 0
                    then (case x509_parse env (client_certificate env) of
                            Inl rc \<Rightarrow> Inl rc
                          | Inr cert \<Rightarrow>
                              Inr (tls_tx_resume
                                     (tls\<lparr>verify_pubkey := signature_algorithm_pubkey cert,
                                          tx_pending := tx_pending tls OR TLS_TX_CERTIFICATE_VERIFY\<rparr>)))
                    else Inr tls)
      in case parsed of
           Inl rc \<Rightarrow> (Some rc, tls)
         | Inr tls \<Rightarrow>
             if \<not> malloc_ok env size then (Some ENOMEM, tls)
             else
               let certificate = replicate size 0;
                   certificate = memcpy (tls_type_length TLS_CERTIFICATE (size - 4)) certificate;
                   certificate = at_offset 4 (\<lambda>m. tls_set_uint24 m (of_nat certificates_size))
                                   certificate;
                   certificate =
                     (if num_certificates \<noteq> 0
                      then at_offset 10 (memcpy (client_certificate env))
                             (at_offset 7
                                (\<lambda>m. tls_set_uint24 m (of_nat (length (client_certificate env))))
                                certificate)
                      else certificate)
               in tls_send_handshake env tls certificate)"

definition tls_send_client_key_exchange :: "collaborators \<Rightarrow> tls_session \<Rightarrow> rc \<times> tls_session" where
  "tls_send_client_key_exchange env tls =
     (let cipherspec = tx_cipherspec_pending tls;
          pubkey' = pubkey (suite cipherspec)
      in case pubkey_encrypt env pubkey' (pubkey_ctx cipherspec) (pre_master_secret tls) of
           Inl rc \<Rightarrow> (Some rc, tls)
         | Inr encrypted_pre_master_secret \<Rightarrow>
             let len = length encrypted_pre_master_secret;
                 key_xchg = tls_type_length TLS_CLIENT_KEY_EXCHANGE (2 + len)
                              @ be16 (of_nat len) @ encrypted_pre_master_secret
             in tls_send_handshake env tls key_xchg)"

text \<open>The table of signature and hash algorithms has one entry.\<close>

definition tls_signature_hash_algorithm ::
  "pubkey_algorithm \<Rightarrow> digest_algorithm \<Rightarrow> (byte \<times> byte) option" where
  "tls_signature_hash_algorithm pubkey' digest' =
     (if pubkey' = rsa_algorithm \<and> digest' = sha256_algorithm
      then Some (TLS_SHA256_ALGORITHM, TLS_RSA_ALGORITHM) else None)"

definition tls_send_certificate_verify :: "collaborators \<Rightarrow> tls_session \<Rightarrow> rc \<times> tls_session" where
  "tls_send_certificate_verify env tls =
     (let digest' = handshake_digest tls;
          pubkey' = verify_pubkey tls;
          verified = tls_verify_handshake env tls;
          digest_out = fst verified;
          tls = snd verified
      in case pubkey_init env pubkey' (replicate (pubkey_ctxsize env pubkey') 0)
                (client_private_key env) of
           (Some rc, ctx) \<Rightarrow> (Some rc, tls)
         | (None, ctx) \<Rightarrow>
             let sig_hash = (if version tls \<ge> TLS_VERSION_TLS_1_2
                             then tls_signature_hash_algorithm pubkey' digest' else None)
             in if version tls \<ge> TLS_VERSION_TLS_1_2 \<and> sig_hash = None then (Some ENOTSUP, tls)
                else
                  case pubkey_sign env pubkey' ctx digest' digest_out of
                    Inl rc \<Rightarrow> (Some rc, tls)
                  | Inr signature \<Rightarrow>
                      let len = length signature;
                          sig_hash_bytes = (case sig_hash of None \<Rightarrow> []
                                            | Some (hash, sig) \<Rightarrow> [hash, sig]);
                          certificate_verify =
                            tls_type_length TLS_CERTIFICATE_VERIFY
                              (length sig_hash_bytes + 2 + len)
                              @ sig_hash_bytes @ be16 (of_nat len) @ signature
                      in tls_send_handshake env tls certificate_verify)"

definition tls_send_change_cipher :: "collaborators \<Rightarrow> tls_session \<Rightarrow> rc \<times> tls_session" where
  "tls_send_change_cipher env tls = tls_send_plaintext env tls TLS_TYPE_CHANGE_CIPHER [1]"

definition tls_send_finished :: "collaborators \<Rightarrow> tls_session \<Rightarrow> rc \<times> tls_session" where
  "tls_send_finished env tls =
     (let verified = tls_verify_handshake env tls;
          digest_out = fst verified;
          tls = snd verified;
          verify_data = tls_prf_label env tls (master_secret tls) 12 ''client finished''
                          [digest_out];
          finished = tls_type_length TLS_FINISHED 12 @ verify_data
      in tls_send_handshake env tls finished)"

section \<open>Records received\<close>

definition tls_new_change_cipher :: "tls_session \<Rightarrow> bytes \<Rightarrow> rc \<times> tls_session" where
  "tls_new_change_cipher tls data =
     (if length data \<noteq> 1 \<or> byte_at data 0 \<noteq> 1 then (Some EINVAL, tls)
      else case tls_change_cipher (rx_cipherspec_pending tls) (rx_cipherspec tls) of
             (Some rc, pending, active) \<Rightarrow> (Some rc, tls)
           | (None, pending, active) \<Rightarrow>
               (None, tls\<lparr>rx_cipherspec_pending := pending, rx_cipherspec := active,
                          rx_seq := NOT 0\<rparr>))"

definition tls_new_alert :: "tls_session \<Rightarrow> bytes \<Rightarrow> rc \<times> tls_session" where
  "tls_new_alert tls data =
     (if 2 \<noteq> length data then (Some EINVAL, tls)
      else let level = byte_at data 0
           in if level = TLS_ALERT_WARNING then (None, tls)
              else if level = TLS_ALERT_FATAL then (Some EPERM, tls)
              else (Some EIO, tls))"

text \<open>
  In \<open>tls_new_server_hello\<close> the pointer \<open>end\<close> is the offset \<open>35 + session_id_len + 3\<close>.
  When the record is shorter than 35 bytes the C reads \<open>session_id_len\<close> past it; whatever
  it reads, \<open>end\<close> lies past the record and the result is the same.
\<close>

definition tls_new_server_hello :: "collaborators \<Rightarrow> tls_session \<Rightarrow> bytes \<Rightarrow> rc \<times> tls_session" where
  "tls_new_server_hello env tls data =
     (let len = length data;
          session_id_len = unat (byte_at data 34);
          hello_b = 2 + 32 + 1;
          end = hello_b + session_id_len + 2 + 1
      in if end > len then (Some EINVAL, tls)
         else
           let version' = ntohs_at data 0
           in if version' < TLS_VERSION_TLS_1_0 then (Some ENOTSUP, tls)
              else if version' > version tls then (Some EPROTO, tls)
              else
                let tls = tls\<lparr>version := version'\<rparr>;
                    tls = (if version tls < TLS_VERSION_TLS_1_2
                           then tls\<lparr>handshake_digest := md5_sha1_algorithm,
                                    handshake_ctx := Handshake_md5_sha1_ctx\<rparr>
                           else tls);
                    tls = tls\<lparr>server_random := take 32 (drop 2 data)\<rparr>
                in case tls_select_cipher env tls (ntohs_at data (hello_b + session_id_len)) of
                     (Some rc, tls) \<Rightarrow> (Some rc, tls)
                   | (None, tls) \<Rightarrow>
                       let tls = tls_generate_master_secret env tls
                       in tls_generate_keys env tls)"

text \<open>
  The certificate chain context is the pair of the offsets \<open>current\<close> and \<open>end\<close> into
  the Certificate record.
\<close>

definition tls_parse_next ::
  "collaborators \<Rightarrow> bytes \<Rightarrow> nat \<times> nat \<Rightarrow> (error + x509_certificate) \<times> (nat \<times> nat)" where
  "tls_parse_next env record context =
     (case context of (current, end) \<Rightarrow>
        if current \<ge> end then (Inl EACCES_INCOMPLETE, context)
        else
          let data = current + 3;
              len = unat (tls_uint24 (drop current record));
              next = data + len
          in if next > end then (Inl EINVAL, context)
             else (x509_parse env (take len (drop data record)), (next, end)))"

definition tls_new_certificate :: "collaborators \<Rightarrow> tls_session \<Rightarrow> bytes \<Rightarrow> rc \<times> tls_session" where
  "tls_new_certificate env tls data =
     (let len = length data;
          elements_len = unat (tls_uint24 data);
          end = 3 + elements_len;
          cipherspec = tx_cipherspec_pending tls;
          pubkey' = pubkey (suite cipherspec)
      in if end \<noteq> len then (Some EINVAL, tls)
         else
           case x509_validate_chain env (tls_parse_next env data) (3, end) (time_now env) of
             Inl rc \<Rightarrow> (Some rc, tls)
           | Inr cert \<Rightarrow>
               if subject_name cert \<noteq> label_bytes (name tls) then (Some EACCES_WRONG_NAME, tls)
               else
                 case pubkey_init env pubkey' (pubkey_ctx cipherspec)
                        (subject_public_key_raw cert) of
                   (rc, ctx) \<Rightarrow>
                     (rc, tls\<lparr>tx_cipherspec_pending := cipherspec\<lparr>pubkey_ctx := ctx\<rparr>\<rparr>))"

definition tls_new_certificate_request :: "tls_session \<Rightarrow> bytes \<Rightarrow> rc \<times> tls_session" where
  "tls_new_certificate_request tls data =
     (None, tls_tx_resume (tls\<lparr>tx_pending := tx_pending tls OR TLS_TX_CERTIFICATE\<rparr>))"

definition tls_new_server_hello_done :: "tls_session \<Rightarrow> bytes \<Rightarrow> rc \<times> tls_session" where
  "tls_new_server_hello_done tls data =
     (if 0 \<noteq> length data then (Some EINVAL, tls)
      else (None, tls_tx_resume
                    (tls\<lparr>tx_pending := tx_pending tls OR
                           (TLS_TX_CLIENT_KEY_EXCHANGE OR TLS_TX_CHANGE_CIPHER OR TLS_TX_FINISHED)\<rparr>)))"

definition tls_new_finished :: "collaborators \<Rightarrow> tls_session \<Rightarrow> bytes \<Rightarrow> rc \<times> tls_session" where
  "tls_new_finished env tls data =
     (if 12 \<noteq> length data then (Some EINVAL, tls)
      else
        let verified = tls_verify_handshake env tls;
            digest_out = fst verified;
            tls = snd verified;
            verify_data = tls_prf_label env tls (master_secret tls) 12 ''server finished''
                            [digest_out]
        in if verify_data \<noteq> take 12 data then (Some EPERM, tls)
           else (None, tls\<lparr>tx_ready := True,
                           plainstream_window_changes := plainstream_window_changes tls + 1\<rparr>))"

text \<open>The \<open>switch\<close> of \<open>tls_new_handshake\<close> on the type of a handshake record.\<close>

definition tls_new_handshake_switch ::
  "collaborators \<Rightarrow> tls_session \<Rightarrow> byte \<Rightarrow> bytes \<Rightarrow> rc \<times> tls_session" where
  "tls_new_handshake_switch env tls type payload =
     (if type = TLS_SERVER_HELLO then tls_new_server_hello env tls payload
      else if type = TLS_CERTIFICATE then tls_new_certificate env tls payload
      else if type = TLS_CERTIFICATE_REQUEST then tls_new_certificate_request tls payload
      else if type = TLS_SERVER_HELLO_DONE then tls_new_server_hello_done tls payload
      else if type = TLS_FINISHED then tls_new_finished env tls payload
      else (None, tls))"

text \<open>
  The loop of \<open>tls_new_handshake\<close> over the handshake records of one TLS record. With
  fewer than four bytes left the C reads the record header past the end; whatever it
  reads, \<open>next\<close> lies past \<open>end\<close>.
\<close>

function tls_new_handshake :: "collaborators \<Rightarrow> tls_session \<Rightarrow> bytes \<Rightarrow> rc \<times> tls_session" where
  "tls_new_handshake env tls data =
     (if data = [] then (None, tls)
      else if 4 + unat (tls_uint24 (drop 1 data)) > length data then (Some EINVAL, tls)
      else
        let type = byte_at data 0;
            payload_len = unat (tls_uint24 (drop 1 data));
            next = 4 + payload_len;
            payload = take payload_len (drop 4 data);
            handled = tls_new_handshake_switch env tls type payload;
            rc = fst handled;
            tls = snd handled;
            tls = (if type \<noteq> TLS_HELLO_REQUEST
                   then tls_add_handshake tls (take next data) else tls)
        in if rc \<noteq> None then (rc, tls)
           else tls_new_handshake env tls (drop next data))"
  by pat_completeness auto
termination
  by (relation "measure (\<lambda>(env, tls, data). length data)") auto

declare tls_new_handshake.simps [simp del]

definition tls_new_record ::
  "collaborators \<Rightarrow> tls_session \<Rightarrow> 32 word \<Rightarrow> bytes \<Rightarrow> rc \<times> tls_session" where
  "tls_new_record env tls type data =
     (if type = TLS_TYPE_CHANGE_CIPHER then tls_new_change_cipher tls data
      else if type = TLS_TYPE_ALERT then tls_new_alert tls data
      else if type = TLS_TYPE_HANDSHAKE then tls_new_handshake env tls data
      else if type = TLS_TYPE_DATA
        then (case xfer_deliver_raw env data of
                Some rc \<Rightarrow> (Some rc, tls)
              | None \<Rightarrow> (None, tls\<lparr>plainstream_delivered := plainstream_delivered tls @ [data]\<rparr>))
      else (None, tls))"

section \<open>Record decryption: splitting\<close>

text \<open>The padding loop of \<open>tls_split_block\<close>: \<open>True\<close> when it runs to its end.\<close>

function tls_split_block_padding :: "bytes \<Rightarrow> nat \<Rightarrow> nat \<Rightarrow> bool" where
  "tls_split_block_padding padding padding_len i =
     (if i < padding_len
      then (if unat (byte_at padding i) \<noteq> padding_len then False
            else tls_split_block_padding padding padding_len (i + 1))
      else True)"
  by pat_completeness auto
termination
  by (relation "measure (\<lambda>(padding, padding_len, i). padding_len - i)") auto

declare tls_split_block_padding.simps [simp del]

text \<open>
  \<open>tls_split_stream\<close> and \<open>tls_split_block\<close> return the content and the MAC carried in
  the record.
\<close>

definition tls_split_stream :: "tls_session \<Rightarrow> bytes \<Rightarrow> error + (bytes \<times> bytes)" where
  "tls_split_stream tls plaintext =
     (let plaintext_len = length plaintext;
          mac_len = digestsize (digest (suite (rx_cipherspec tls)))
      in if plaintext_len < mac_len then Inl EINVAL
         else let content_len = plaintext_len - mac_len;
                  content = take content_len plaintext;
                  mac = drop content_len plaintext
              in Inr (content, mac))"

definition tls_split_block :: "tls_session \<Rightarrow> bytes \<Rightarrow> error + (bytes \<times> bytes)" where
  "tls_split_block tls plaintext =
     (let plaintext_len = length plaintext
      in if plaintext_len < 1 then Inl EINVAL
         else
           let iv_len = (if version tls \<ge> TLS_VERSION_TLS_1_1
                         then blocksize (cipher (suite (rx_cipherspec tls))) else 0);
               mac_len = digestsize (digest (suite (rx_cipherspec tls)));
               padding_len = unat (byte_at plaintext (plaintext_len - 1))
           in if plaintext_len < iv_len + mac_len + padding_len + 1 then Inl EINVAL
              else
                let content_len = plaintext_len - iv_len - mac_len - padding_len - 1;
                    content = take content_len (drop iv_len plaintext);
                    mac = take mac_len (drop (iv_len + content_len) plaintext);
                    padding = drop (iv_len + content_len + mac_len) plaintext
                in if tls_split_block_padding padding padding_len 0
                   then Inr (content, mac) else Inl EINVAL)"

text \<open>\<open>tlshdr\<close> is the record header received, \<open>ciphertext\<close> the record body.\<close>

definition tls_header_of :: "bytes \<Rightarrow> tls_header" where
  "tls_header_of rx_header' =
     \<lparr>hdr_type = byte_at rx_header' 0, hdr_version = ntohs_at rx_header' 1,
      hdr_length = ntohs_at rx_header' 3\<rparr>"

definition tls_new_ciphertext ::
  "collaborators \<Rightarrow> tls_session \<Rightarrow> tls_header \<Rightarrow> bytes \<Rightarrow> rc \<times> tls_session" where
  "tls_new_ciphertext env tls tlshdr ciphertext =
     (let cipherspec = rx_cipherspec tls;
          cipher' = cipher (suite cipherspec);
          record_len = unat (hdr_length tlshdr);
          mac_len = digestsize (digest (suite cipherspec))
      in if \<not> malloc_ok env record_len then (Some ENOMEM, tls)
         else
           let decrypted = cipher_decrypt env cipher' (cipher_ctx cipherspec)
                             (fit record_len ciphertext);
               cipherspec = cipherspec\<lparr>cipher_ctx := fst decrypted\<rparr>;
               tls = tls\<lparr>rx_cipherspec := cipherspec\<rparr>;
               plaintext = fit record_len (snd decrypted);
               split = (if is_stream_cipher cipher' then tls_split_stream tls plaintext
                        else tls_split_block tls plaintext)
           in case split of
                Inl rc \<Rightarrow> (Some rc, tls)
              | Inr (data, mac) \<Rightarrow>
                  let rc = None;
                      len = length data;
                      plaintext_tlshdr = \<lparr>hdr_type = hdr_type tlshdr,
                                          hdr_version = hdr_version tlshdr,
                                          hdr_length = of_nat len\<rparr>;
                      verify_mac = tls_hmac env cipherspec (rx_seq tls) plaintext_tlshdr data
                  in if take mac_len mac \<noteq> take mac_len verify_mac then (rc, tls)
                     else tls_new_record env tls (ucast (hdr_type tlshdr)) data)"

section \<open>Plaintext stream operations\<close>

definition tls_plainstream_window :: "collaborators \<Rightarrow> tls_session \<Rightarrow> nat" where
  "tls_plainstream_window env tls = (if \<not> tx_ready tls then 0 else xfer_window env)"

definition tls_plainstream_deliver ::
  "collaborators \<Rightarrow> tls_session \<Rightarrow> bytes \<Rightarrow> rc \<times> tls_session" where
  "tls_plainstream_deliver env tls iobuf =
     (if \<not> tx_ready tls then (Some ENOTCONN, tls)
      else tls_send_plaintext env tls TLS_TYPE_DATA iobuf)"

section \<open>Ciphertext stream operations\<close>

definition tls_newdata_process_header :: "collaborators \<Rightarrow> tls_session \<Rightarrow> rc \<times> tls_session" where
  "tls_newdata_process_header env tls =
     (let data_len = unat (hdr_length (tls_header_of (rx_header tls)))
      in if \<not> malloc_ok env data_len then (Some ENOMEM, tls)
         else (None, tls\<lparr>rx_data := Some (replicate data_len 0), rx_state := TLS_RX_DATA\<rparr>))"

definition tls_newdata_process_data :: "collaborators \<Rightarrow> tls_session \<Rightarrow> rc \<times> tls_session" where
  "tls_newdata_process_data env tls =
     (case tls_new_ciphertext env tls (tls_header_of (rx_header tls))
             (case rx_data tls of None \<Rightarrow> [] | Some data \<Rightarrow> data) of
        (Some rc, tls) \<Rightarrow> (Some rc, tls)
      | (None, tls) \<Rightarrow>
          (None, tls\<lparr>rx_seq := rx_seq tls + 1, rx_data := None, rx_state := TLS_RX_HEADER\<rparr>))"

section \<open>Controlling process\<close>

definition tls_tx_step :: "collaborators \<Rightarrow> tls_session \<Rightarrow> tls_session" where
  "tls_tx_step env tls =
     (if xfer_window env = 0 then tls
      else
        let sent =
          (if tx_pending tls AND TLS_TX_CLIENT_HELLO \<noteq> 0 then
             (case tls_send_client_hello env tls of
                (Some rc, tls) \<Rightarrow> (Some rc, tls)
              | (None, tls) \<Rightarrow>
                  (None, tls\<lparr>tx_pending := tx_pending tls AND NOT TLS_TX_CLIENT_HELLO\<rparr>))
           else if tx_pending tls AND TLS_TX_CERTIFICATE \<noteq> 0 then
             (case tls_send_certificate env tls of
                (Some rc, tls) \<Rightarrow> (Some rc, tls)
              | (None, tls) \<Rightarrow>
                  (None, tls\<lparr>tx_pending := tx_pending tls AND NOT TLS_TX_CERTIFICATE\<rparr>))
           else if tx_pending tls AND TLS_TX_CLIENT_KEY_EXCHANGE \<noteq> 0 then
             (case tls_send_client_key_exchange env tls of
                (Some rc, tls) \<Rightarrow> (Some rc, tls)
              | (None, tls) \<Rightarrow>
                  (None, tls\<lparr>tx_pending := tx_pending tls AND NOT TLS_TX_CLIENT_KEY_EXCHANGE\<rparr>))
           else if tx_pending tls AND TLS_TX_CERTIFICATE_VERIFY \<noteq> 0 then
             (case tls_send_certificate_verify env tls of
                (Some rc, tls) \<Rightarrow> (Some rc, tls)
              | (None, tls) \<Rightarrow>
                  (None, tls\<lparr>tx_pending := tx_pending tls AND NOT TLS_TX_CERTIFICATE_VERIFY\<rparr>))
           else if tx_pending tls AND TLS_TX_CHANGE_CIPHER \<noteq> 0 then
             (case tls_send_change_cipher env tls of
                (Some rc, tls) \<Rightarrow> (Some rc, tls)
              | (None, tls) \<Rightarrow>
                  (case tls_change_cipher (tx_cipherspec_pending tls) (tx_cipherspec tls) of
                     (Some rc, pending, active) \<Rightarrow> (Some rc, tls)
                   | (None, pending, active) \<Rightarrow>
                       (None, tls\<lparr>tx_cipherspec_pending := pending, tx_cipherspec := active,
                                  tx_seq := 0,
                                  tx_pending := tx_pending tls AND NOT TLS_TX_CHANGE_CIPHER\<rparr>)))
           else if tx_pending tls AND TLS_TX_FINISHED \<noteq> 0 then
             (case tls_send_finished env tls of
                (Some rc, tls) \<Rightarrow> (Some rc, tls)
              | (None, tls) \<Rightarrow>
                  (None, tls\<lparr>tx_pending := tx_pending tls AND NOT TLS_TX_FINISHED\<rparr>))
           else (None, tls))
        in case sent of
             (Some rc, tls) \<Rightarrow> tls_close tls (Some rc)
           | (None, tls) \<Rightarrow> (if tx_pending tls \<noteq> 0 then tls_tx_resume tls else tls))"

section \<open>Instantiator\<close>

text \<open>
  \<open>add_tls\<close> returns the status code and, on success, the new session. The session
  structure is zeroed first; \<open>gmt_unix_time\<close> is stored as the processor has it
  (little-endian), and \<open>process_init\<close> schedules the process.
\<close>

definition zeroed_cipherspec :: tls_cipherspec where
  "zeroed_cipherspec =
     \<lparr>suite = tls_cipher_suite_null, pubkey_ctx = [], cipher_ctx = [], cipher_next_ctx = [],
      mac_secret = []\<rparr>"

definition add_tls :: "collaborators \<Rightarrow> string \<Rightarrow> rc \<times> tls_session option" where
  "add_tls env name' =
     (if \<not> malloc_ok env (sizeof_tls_session env) then (Some ENOMEM, None)
      else
        case tls_generate_random env 28 of
          (Some rc, random) \<Rightarrow> (Some rc, None)
        | (None, random) \<Rightarrow>
            (case tls_generate_random env 46 of
               (Some rc, pre_master_random) \<Rightarrow> (Some rc, None)
             | (None, pre_master_random) \<Rightarrow>
                 (None, Some
                   \<lparr>name = name',
                    version = TLS_VERSION_TLS_1_2,
                    tx_cipherspec = tls_clear_cipher zeroed_cipherspec,
                    tx_cipherspec_pending = tls_clear_cipher zeroed_cipherspec,
                    rx_cipherspec = tls_clear_cipher zeroed_cipherspec,
                    rx_cipherspec_pending = tls_clear_cipher zeroed_cipherspec,
                    pre_master_secret = be16 TLS_VERSION_TLS_1_2 @ pre_master_random,
                    master_secret = replicate 48 0,
                    server_random = replicate 32 0,
                    client_random = rev (be32 (time_now env)) @ random,
                    handshake_md5_sha1_ctx = md5_sha1_init,
                    handshake_sha256_ctx = digest_init,
                    handshake_digest = sha256_algorithm,
                    handshake_ctx = Handshake_sha256_ctx,
                    verify_pubkey = pubkey_null,
                    tx_seq = 0,
                    tx_pending = TLS_TX_CLIENT_HELLO,
                    tx_ready = False,
                    rx_seq = 0,
                    rx_state = TLS_RX_HEADER,
                    rx_rcvd = 0,
                    rx_header = replicate 5 0,
                    rx_data = None,
                    process_scheduled = True,
                    cipherstream_sent = [],
                    plainstream_delivered = [],
                    plainstream_window_changes = 0,
                    shutdown_rc = None\<rparr>)))"

section \<open>The pseudo-random function as the specification words it\<close>

text \<open>
  These definitions follow the specification, not the source; the theorems on
  \<open>tls_prf\<close> compare the two. \<open>HMAC_H (secret, x)\<close>; \<open>A(0) = seed\<close>,
  \<open>A(i) = HMAC_H (secret, A(i - 1))\<close>; \<open>output_i = HMAC_H (secret, A(i) \<parallel> seed)\<close>;
  \<open>P_hash\<close> concatenates \<open>output_1\<close>, \<open>output_2\<close>, \<open>\<dots>\<close> and truncates to \<open>out_len\<close>
  (\<open>out_len\<close> outputs are always enough). For TLS 1.2 and later the PRF is
  \<open>P_SHA256 (secret, seed)\<close>; before, the secret is split into two halves of
  \<open>\<lceil>len / 2\<rceil>\<close> bytes, the first and the last, and the PRF is
  \<open>P_MD5 (S1, seed) XOR P_SHA1 (S2, seed)\<close>.
\<close>

definition spec_HMAC :: "collaborators \<Rightarrow> digest_algorithm \<Rightarrow> bytes \<Rightarrow> bytes \<Rightarrow> bytes" where
  "spec_HMAC env H secret x = hmac_final env H x secret"

primrec spec_A :: "collaborators \<Rightarrow> digest_algorithm \<Rightarrow> bytes \<Rightarrow> bytes \<Rightarrow> nat \<Rightarrow> bytes" where
  "spec_A env H secret seed 0 = seed"
| "spec_A env H secret seed (Suc i) = spec_HMAC env H secret (spec_A env H secret seed i)"

definition spec_output :: "collaborators \<Rightarrow> digest_algorithm \<Rightarrow> bytes \<Rightarrow> bytes \<Rightarrow> nat \<Rightarrow> bytes" where
  "spec_output env H secret seed i = spec_HMAC env H secret (spec_A env H secret seed i @ seed)"

definition spec_P_hash :: "collaborators \<Rightarrow> digest_algorithm \<Rightarrow> bytes \<Rightarrow> bytes \<Rightarrow> nat \<Rightarrow> bytes" where
  "spec_P_hash env H secret seed out_len =
     take out_len (concat (map (spec_output env H secret seed) [1..<Suc out_len]))"

definition spec_prf :: "collaborators \<Rightarrow> 16 word \<Rightarrow> bytes \<Rightarrow> bytes \<Rightarrow> nat \<Rightarrow> bytes" where
  "spec_prf env version' secret seed out_len =
     (if version' \<ge> TLS_VERSION_TLS_1_2
      then spec_P_hash env sha256_algorithm secret seed out_len
      else
        let half = (length secret + 1) div 2;
            S1 = take half secret;
            S2 = drop (length secret - half) secret
        in map2 (XOR) (spec_P_hash env md5_algorithm S1 seed out_len)
                      (spec_P_hash env sha1_algorithm S2 seed out_len))"

section \<open>Concrete instances\<close>

text \<open>
  A deterministic instance of the collaborators, a cipher specification and sessions,
  used to run the model on concrete inputs. The null cipher copies its input, as
  \<open>cipher_null\<close> does; the other primitives are simple stand-ins (the stand-in for
  HMAC is the message followed by the key, cut or zero-padded to the digest size).
\<close>

definition example_collaborators :: collaborators where
  "example_collaborators =
     \<lparr>digest_hash = (\<lambda>d msg. rev msg),
      hmac_hash = (\<lambda>d key msg. msg @ key),
      cipher_ctxsize = (\<lambda>c. if c = cipher_null then 0 else 4),
      pubkey_ctxsize = (\<lambda>p. 0),
      cipher_setkey = (\<lambda>c ctx key. (None, take 4 key)),
      cipher_setiv = (\<lambda>c ctx iv. take 2 ctx @ take 2 iv),
      cipher_encrypt = (\<lambda>c ctx src. if c = cipher_null then (ctx, src)
                                       else (take 4 (rev src), map (\<lambda>b. b XOR 0x5a) src)),
      cipher_decrypt = (\<lambda>c ctx src. if c = cipher_null then (ctx, src)
                                       else (take 4 (rev src), map (\<lambda>b. b XOR 0x5a) src)),
      pubkey_init = (\<lambda>p ctx key. (None, ctx)),
      pubkey_max_len = (\<lambda>p ctx. 0),
      pubkey_encrypt = (\<lambda>p ctx msg. Inr msg),
      pubkey_sign = (\<lambda>p ctx d msg. Inr msg),
      rbg_generate = (\<lambda>len. (None, replicate len 0x2a)),
      x509_parse = (\<lambda>der. Inl EINVAL),
      x509_validate_chain = (\<lambda>parse_next context now. Inl EACCES_INCOMPLETE),
      time_now = 0,
      malloc_ok = (\<lambda>len. True),
      xfer_alloc_iob_ok = (\<lambda>len. True),
      xfer_deliver_iob = (\<lambda>iobuf. None),
      xfer_deliver_raw = (\<lambda>data. None),
      xfer_window = 1,
      client_certificate = [],
      client_private_key = [],
      sizeof_tls_session = 0\<rparr>"

definition example_cipherspec :: tls_cipherspec where
  "example_cipherspec =
     \<lparr>suite = \<lparr>code = TLS_RSA_WITH_AES_128_CBC_SHA, key_len = 128 div 8,
               pubkey = rsa_algorithm, cipher = aes_cbc_algorithm, digest = sha1_algorithm\<rparr>,
      pubkey_ctx = [],
      cipher_ctx = [1, 2, 3, 4],
      cipher_next_ctx = [0, 0, 0, 0],
      mac_secret = replicate 20 0x0b\<rparr>"

text \<open>A session in the middle of a handshake: null ciphers active, a suite pending.\<close>

definition example_session :: tls_session where
  "example_session =
     \<lparr>name = ''host'',
      version = TLS_VERSION_TLS_1_2,
      tx_cipherspec = tls_clear_cipher zeroed_cipherspec,
      tx_cipherspec_pending = example_cipherspec,
      rx_cipherspec = tls_clear_cipher zeroed_cipherspec,
      rx_cipherspec_pending = example_cipherspec,
      pre_master_secret = be16 TLS_VERSION_TLS_1_2 @ replicate 46 0x2a,
      master_secret = replicate 48 7,
      server_random = replicate 32 1,
      client_random = replicate 32 0x2a,
      handshake_md5_sha1_ctx = \<lparr>md5 = [1, 0, 0, 0], sha1 = [1, 0, 0, 0]\<rparr>,
      handshake_sha256_ctx = [1, 0, 0, 0],
      handshake_digest = sha256_algorithm,
      handshake_ctx = Handshake_sha256_ctx,
      verify_pubkey = pubkey_null,
      tx_seq = 3,
      tx_pending = TLS_TX_CHANGE_CIPHER OR TLS_TX_FINISHED,
      tx_ready = False,
      rx_seq = 4,
      rx_state = TLS_RX_DATA,
      rx_rcvd = 0,
      rx_header = [20, 3, 3, 0, 1],
      rx_data = Some [1],
      process_scheduled = True,
      cipherstream_sent = [],
      plainstream_delivered = [],
      plainstream_window_changes = 0,
      shutdown_rc = None\<rparr>"

text \<open>The same session once the pending cipher specifications are active.\<close>

definition example_session_encrypted :: tls_session where
  "example_session_encrypted =
     example_session\<lparr>tx_cipherspec := example_cipherspec, rx_cipherspec := example_cipherspec,
       tx_cipherspec_pending := tls_clear_cipher zeroed_cipherspec,
       rx_cipherspec_pending := tls_clear_cipher zeroed_cipherspec,
       tx_pending := 0, tx_seq := 1, rx_seq := 1, rx_state := TLS_RX_HEADER, rx_data := None\<rparr>"

section \<open>The 24-bit fields\<close>

lemma bit_below_24:
  assumes "unat (v :: 32 word) < 2 ^ 24" and "bit v n"
  shows "n < 24"
proof -
  have "v < 2 ^ 24" using assms(1) by (simp add: word_less_nat_alt)
  then have "take_bit 24 v = v" by (simp add: take_bit_eq_mask less_mask_eq)
  then have "bit (take_bit 24 v) n" using assms(2) by simp
  then show ?thesis by (simp add: bit_simps)
qed

lemma drop_push_8:
  assumes "unat (v :: 32 word) < 2 ^ 24"
  shows "drop_bit 8 (ucast (x :: byte) OR push_bit 8 v) = v"
proof (rule bit_word_eqI)
  fix n assume "n < LENGTH(32)"
  show "bit (drop_bit 8 (ucast x OR push_bit 8 v)) n = bit v n"
    using bit_below_24 [OF assms, of n] by (auto simp add: bit_simps dest: bit_imp_le_length)
qed

lemma be32_to_cpu_be32: "be32_to_cpu_at (be32 w @ r) 0 = w"
proof -
  let ?e = "push_bit 24 (ucast (ucast (drop_bit 24 w) :: byte))
       OR push_bit 16 (ucast (ucast (drop_bit 16 w) :: byte))
       OR push_bit 8 (ucast (ucast (drop_bit 8 w) :: byte)) OR ucast (ucast w :: byte) :: 32 word"
  have "?e = w"
  proof (rule bit_word_eqI)
    fix n assume "n < LENGTH(32)"
    then consider "n < 8" | "8 \<le> n \<and> n < 16" | "16 \<le> n \<and> n < 24" | "24 \<le> n \<and> n < 32"
      by fastforce
    then show "bit ?e n = bit w n"
      by cases (auto simp add: bit_simps)
  qed
  then show ?thesis
    by (simp add: be32_to_cpu_at_def be32_def byte_at_def)
qed

lemma be32_to_cpu_take3: "drop_bit 8 (be32_to_cpu_at (take 3 (be32 w)) 0) = drop_bit 8 w"
proof -
  let ?e = "push_bit 24 (ucast (ucast (drop_bit 24 w) :: byte))
       OR push_bit 16 (ucast (ucast (drop_bit 16 w) :: byte))
       OR push_bit 8 (ucast (ucast (drop_bit 8 w) :: byte)) :: 32 word"
  have "drop_bit 8 ?e = drop_bit 8 w"
  proof (rule bit_word_eqI)
    fix n assume "n < LENGTH(32)"
    then consider "n < 8" | "8 \<le> n \<and> n < 16" | "16 \<le> n \<and> n < 24" | "24 \<le> n \<and> n < 32"
      by fastforce
    then show "bit (drop_bit 8 ?e) n = bit (drop_bit 8 w) n"
      by cases (auto simp add: bit_simps dest: bit_imp_le_length)
  qed
  then show ?thesis
    by (simp add: be32_to_cpu_at_def be32_def byte_at_def)
qed

lemma tls_uint24_be32: "tls_uint24 (be32 w @ r) = drop_bit 8 w"
  by (simp add: tls_uint24_def be32_to_cpu_be32)

lemma be32_to_cpu_zero: "be32_to_cpu_at (0 # 0 # 0 # rest) 0 = ucast (byte_at rest 0)"
  by (simp add: be32_to_cpu_at_def byte_at_def)

lemma tls_set_uint24_end:
  "tls_set_uint24 [0, 0, 0] v = take 3 (be32 (ucast (0 :: byte) OR push_bit 8 v))"
  by (simp add: tls_set_uint24_def be32_to_cpu_zero byte_at_def be32_def)

lemma tls_set_uint24_inside:
  "tls_set_uint24 (0 # 0 # 0 # x # r) v = be32 (ucast (x :: byte) OR push_bit 8 v) @ r"
  by (simp add: tls_set_uint24_def be32_to_cpu_zero byte_at_def be32_def)

text \<open>
  C9: for every value \<open>v < 2 ^ 24\<close> and every pre-zeroed 3-byte field, whatever memory
  \<open>rest\<close> follows the field, \<open>tls_uint24\<close> applied to the field after
  \<open>tls_set_uint24 (field, v)\<close> returns \<open>v\<close>.
\<close>

theorem tls_uint24_set_uint24:
  assumes "unat v < 2 ^ 24"
  shows "tls_uint24 (tls_set_uint24 (0 # 0 # 0 # rest) v) = v"
proof (cases rest)
  case Nil
  have "tls_uint24 (tls_set_uint24 (0 # 0 # 0 # rest) v)
          = drop_bit 8 (ucast (0 :: byte) OR push_bit 8 v)"
    unfolding Nil tls_set_uint24_end tls_uint24_def by (rule be32_to_cpu_take3)
  then show ?thesis
    by (simp only: drop_push_8 [OF assms])
next
  case (Cons x r)
  have "tls_uint24 (tls_set_uint24 (0 # 0 # 0 # rest) v) = drop_bit 8 (ucast x OR push_bit 8 v)"
    unfolding Cons tls_set_uint24_inside by (rule tls_uint24_be32)
  then show ?thesis
    by (simp only: drop_push_8 [OF assms])
qed

theorem tls_uint24_set_uint24_witness:
  "unat (0xABCDEF :: 32 word) < 2 ^ 24
   \<and> tls_uint24 (tls_set_uint24 [0, 0, 0, 0x7f] 0xABCDEF) = 0xABCDEF
   \<and> tls_uint24 (tls_set_uint24 [0, 0, 0] 0xFFFFFF) = 0xFFFFFF"
proof -
  have a: "unat (0xABCDEF :: 32 word) < 2 ^ 24" by simp
  have b: "unat (0xFFFFFF :: 32 word) < 2 ^ 24" by simp
  show ?thesis
    using a tls_uint24_set_uint24 [OF a, of "[0x7f]"] tls_uint24_set_uint24 [OF b, of "[]"]
    by simp
qed

section \<open>Splitting a block-ciphered record\<close>

lemma tls_split_block_padding_iff:
  "tls_split_block_padding padding n i = (\<forall>j. i \<le> j \<and> j < n \<longrightarrow> unat (byte_at padding j) = n)"
proof (induction padding n i rule: tls_split_block_padding.induct)
  case (1 padding padding_len i)
  show ?case
  proof (cases "i < padding_len")
    case False
    then show ?thesis by (subst tls_split_block_padding.simps) auto
  next
    case True
    show ?thesis
    proof (cases "unat (byte_at padding i) = padding_len")
      case False
      with True show ?thesis
        by (subst tls_split_block_padding.simps) auto
    next
      case eq: True
      have "tls_split_block_padding padding padding_len i
              = tls_split_block_padding padding padding_len (i + 1)"
        using True eq by (subst tls_split_block_padding.simps) simp
      also have "\<dots> = (\<forall>j. i + 1 \<le> j \<and> j < padding_len \<longrightarrow> unat (byte_at padding j) = padding_len)"
        using "1.IH" True eq by simp
      also have "\<dots> = (\<forall>j. i \<le> j \<and> j < padding_len \<longrightarrow> unat (byte_at padding j) = padding_len)"
      proof (intro iffI allI impI)
        fix j assume h: "\<forall>j. i + 1 \<le> j \<and> j < padding_len \<longrightarrow> unat (byte_at padding j) = padding_len"
          and j: "i \<le> j \<and> j < padding_len"
        show "unat (byte_at padding j) = padding_len"
        proof (cases "j = i")
          case True then show ?thesis using eq by simp
        next
          case False
          then have "i + 1 \<le> j" using j by simp
          then show ?thesis using h j by blast
        qed
      next
        fix j assume h: "\<forall>j. i \<le> j \<and> j < padding_len \<longrightarrow> unat (byte_at padding j) = padding_len"
          and j: "i + 1 \<le> j \<and> j < padding_len"
        then have "i \<le> j \<and> j < padding_len" by simp
        then show "unat (byte_at padding j) = padding_len" using h by blast
      qed
      finally show ?thesis .
    qed
  qed
qed

text \<open>
  C7: for a decrypted block-cipher record with \<open>pad_len\<close> the value of its last byte,
  \<open>tls_split_block\<close> fails with \<open>EINVAL\<close> when
  \<open>iv_len + mac_len + pad_len + 1\<close> exceeds the length of the plaintext, and when one of
  the \<open>pad_len\<close> bytes before the last byte differs from \<open>pad_len\<close>; otherwise the
  content is the plaintext without its first \<open>iv_len\<close> bytes and without its last
  \<open>mac_len + pad_len + 1\<close> bytes, and the MAC is the \<open>mac_len\<close> bytes after the content.
\<close>

theorem tls_split_block_checks:
  assumes "plaintext \<noteq> []"
  shows "tls_split_block tls plaintext =
    (let n = length plaintext; pad_len = unat (last plaintext);
         iv_len = (if version tls \<ge> TLS_VERSION_TLS_1_1
                   then blocksize (cipher (suite (rx_cipherspec tls))) else 0);
         mac_len = digestsize (digest (suite (rx_cipherspec tls)))
     in if iv_len + mac_len + pad_len + 1 > n then Inl EINVAL
        else if \<exists>b \<in> set (take pad_len (drop (n - 1 - pad_len) plaintext)). unat b \<noteq> pad_len
          then Inl EINVAL
        else Inr (take (n - iv_len - mac_len - pad_len - 1) (drop iv_len plaintext),
                  take mac_len (drop (n - mac_len - pad_len - 1) plaintext)))"
proof -
  define n where "n = length plaintext"
  define pad_len where "pad_len = unat (last plaintext)"
  define iv_len where "iv_len = (if version tls \<ge> TLS_VERSION_TLS_1_1
                   then blocksize (cipher (suite (rx_cipherspec tls))) else 0)"
  define mac_len where "mac_len = digestsize (digest (suite (rx_cipherspec tls)))"
  have n: "n \<ge> 1" using assms by (cases plaintext) (auto simp: n_def)
  have lastb: "byte_at plaintext (n - 1) = last plaintext"
    using assms n by (simp add: byte_at_def n_def last_conv_nth)
  have unfold: "tls_split_block tls plaintext =
     (if n < iv_len + mac_len + pad_len + 1 then Inl EINVAL
      else if tls_split_block_padding
                (drop (iv_len + (n - iv_len - mac_len - pad_len - 1) + mac_len) plaintext) pad_len 0
           then Inr (take (n - iv_len - mac_len - pad_len - 1) (drop iv_len plaintext),
                     take mac_len (drop (iv_len + (n - iv_len - mac_len - pad_len - 1)) plaintext))
           else Inl EINVAL)"
    unfolding tls_split_block_def Let_def n_def[symmetric] lastb pad_len_def[symmetric]
      iv_len_def[symmetric] mac_len_def[symmetric]
    using n by (simp only: not_less[symmetric] if_False if_True split: if_splits) 
  show ?thesis
  proof (cases "n < iv_len + mac_len + pad_len + 1")
    case True
    then show ?thesis
      unfolding Let_def n_def[symmetric] pad_len_def[symmetric] iv_len_def[symmetric]
        mac_len_def[symmetric] unfold
      by (simp only: if_True)
  next
    case False
    then have fits: "iv_len + mac_len + pad_len + 1 \<le> n" by simp
    have off: "iv_len + (n - iv_len - mac_len - pad_len - 1) + mac_len = n - 1 - pad_len"
      using fits by simp
    have mac: "iv_len + (n - iv_len - mac_len - pad_len - 1) = n - mac_len - pad_len - 1"
      using fits by simp
    have len: "length (drop (n - 1 - pad_len) plaintext) = pad_len + 1"
      using fits by (simp add: n_def)
    have pad: "tls_split_block_padding (drop (n - 1 - pad_len) plaintext) pad_len 0
                 = (\<not> (\<exists>b \<in> set (take pad_len (drop (n - 1 - pad_len) plaintext)). unat b \<noteq> pad_len))"
    proof -
      define padding where "padding = drop (n - 1 - pad_len) plaintext"
      have l: "length padding = pad_len + 1" using len by (simp add: padding_def)
      have "(\<forall>j. 0 \<le> j \<and> j < pad_len \<longrightarrow> unat (byte_at padding j) = pad_len)
              = (\<forall>b \<in> set (take pad_len padding). unat b = pad_len)"
      proof (intro iffI ballI allI impI)
        fix b assume h: "\<forall>j. 0 \<le> j \<and> j < pad_len \<longrightarrow> unat (byte_at padding j) = pad_len"
          and b: "b \<in> set (take pad_len padding)"
        from b obtain j where j: "j < pad_len" "take pad_len padding ! j = b"
          using l by (auto simp: in_set_conv_nth)
        then have "byte_at padding j = b" using l by (simp add: byte_at_def)
        then show "unat b = pad_len" using h j by blast
      next
        fix j assume h: "\<forall>b \<in> set (take pad_len padding). unat b = pad_len"
          and j: "0 \<le> j \<and> j < pad_len"
        then have "take pad_len padding ! j \<in> set (take pad_len padding)"
          using l by (intro nth_mem) simp
        then have "unat (take pad_len padding ! j) = pad_len" using h by blast
        moreover have "take pad_len padding ! j = byte_at padding j"
          using j l by (simp add: byte_at_def)
        ultimately show "unat (byte_at padding j) = pad_len" by (simp only:)
      qed
      then have "tls_split_block_padding padding pad_len 0
                 = (\<forall>b \<in> set (take pad_len padding). unat b = pad_len)"
        by (simp only: tls_split_block_padding_iff)
      then show ?thesis
        unfolding padding_def by simp
    qed
    note u = unfold[unfolded off, unfolded mac pad]
    show ?thesis
      unfolding Let_def n_def[symmetric] pad_len_def[symmetric] iv_len_def[symmetric]
        mac_len_def[symmetric] u
      using False by (simp only: if_False split: if_splits) blast
  qed
qed

theorem tls_split_block_checks_witness:
  "replicate 16 0 @ [1, 2, 3] @ replicate 20 7 @ replicate 9 (8 :: byte) \<noteq> []
   \<and> tls_split_block example_session_encrypted
         (replicate 16 0 @ [1, 2, 3] @ replicate 20 7 @ replicate 9 8)
       = Inr ([1, 2, 3], replicate 20 7)
   \<and> tls_split_block example_session_encrypted
         (replicate 16 0 @ [1, 2, 3] @ replicate 20 7 @ [8, 8, 8, 9, 8, 8, 8, 8, 8])
       = Inl EINVAL
   \<and> tls_split_block example_session_encrypted (replicate 63 0 @ [255]) = Inl EINVAL"
proof -
  have ne: "replicate 16 0 @ [1, 2, 3] @ replicate 20 7 @ replicate 9 (8 :: byte) \<noteq> []"
    by simp
  have "tls_split_block example_session_encrypted
          (replicate 16 0 @ [1, 2, 3] @ replicate 20 7 @ replicate 9 8)
        = Inr ([1, 2, 3], replicate 20 7)"
    unfolding tls_split_block_checks [OF ne, of example_session_encrypted] by code_simp
  moreover have "tls_split_block example_session_encrypted
         (replicate 16 0 @ [1, 2, 3] @ replicate 20 7 @ [8, 8, 8, 9, 8, 8, 8, 8, 8])
       = Inl EINVAL"
    by code_simp
  moreover have "tls_split_block example_session_encrypted (replicate 63 0 @ [255]) = Inl EINVAL"
    by code_simp
  ultimately show ?thesis using ne by blast
qed

section \<open>MAC verification of a received record\<close>

text \<open>
  What \<open>tls_new_ciphertext\<close> does when the record decrypts and splits but the MAC it
  carries is not the MAC recomputed over the sequence number, the plaintext header and
  the content: the status is the one the split left (0), and nothing is dispatched.
\<close>

lemma tls_new_ciphertext_mac_mismatch:
  assumes "malloc_ok env (unat (hdr_length tlshdr))"
    and "cipher_decrypt env (cipher (suite (rx_cipherspec tls))) (cipher_ctx (rx_cipherspec tls))
           (fit (unat (hdr_length tlshdr)) ciphertext) = (ctx, plaintext)"
    and "(if is_stream_cipher (cipher (suite (rx_cipherspec tls)))
          then tls_split_stream (tls\<lparr>rx_cipherspec := (rx_cipherspec tls)\<lparr>cipher_ctx := ctx\<rparr>\<rparr>)
                 (fit (unat (hdr_length tlshdr)) plaintext)
          else tls_split_block (tls\<lparr>rx_cipherspec := (rx_cipherspec tls)\<lparr>cipher_ctx := ctx\<rparr>\<rparr>)
                 (fit (unat (hdr_length tlshdr)) plaintext)) = Inr (data, mac)"
    and "take (digestsize (digest (suite (rx_cipherspec tls)))) mac \<noteq>
         take (digestsize (digest (suite (rx_cipherspec tls))))
           (tls_hmac env ((rx_cipherspec tls)\<lparr>cipher_ctx := ctx\<rparr>) (rx_seq tls)
              \<lparr>hdr_type = hdr_type tlshdr, hdr_version = hdr_version tlshdr,
               hdr_length = of_nat (length data)\<rparr> data)"
  shows "tls_new_ciphertext env tls tlshdr ciphertext
           = (None, tls\<lparr>rx_cipherspec := (rx_cipherspec tls)\<lparr>cipher_ctx := ctx\<rparr>\<rparr>)"
  using assms by (simp add: tls_new_ciphertext_def Let_def split: if_splits)

text \<open>
  C1 on a concrete record. The session has AES-128-CBC with SHA-1 active for reception and
  \<open>rx_seq = 1\<close>. The application-data record decrypts to a 16-byte IV, the content
  \<open>[1, 2, 3]\<close>, a 20-byte MAC and 9 bytes of padding. The MAC recomputed over
  \<open>rx_seq\<close>, the header and the content is, with the stand-in for HMAC, the first 20
  bytes of these followed by the key. When the record carries that
  MAC the content is delivered; when it carries 20 bytes of 7, \<open>tls_new_ciphertext\<close>
  returns 0 instead of an error, the content is not delivered,
  \<open>tls_newdata_process_data\<close> returns 0 and increments \<open>rx_seq\<close>, and the session is
  not shut down.
\<close>

theorem tls_new_ciphertext_bad_mac_returns_success:
  "tls_hmac example_collaborators example_cipherspec 1
     \<lparr>hdr_type = 23, hdr_version = 0x0303, hdr_length = 3\<rparr> [1, 2, 3] = [0, 0, 0, 0, 0, 0, 0, 1, 23, 3, 3, 0, 3, 1, 2, 3, 11, 11, 11, 11]
   \<and> plainstream_delivered (snd (tls_new_ciphertext example_collaborators example_session_encrypted
         \<lparr>hdr_type = 23, hdr_version = 0x0303, hdr_length = 48\<rparr>
         (map (\<lambda>b. b XOR 0x5a) (replicate 16 0 @ [1, 2, 3] @ [0, 0, 0, 0, 0, 0, 0, 1, 23, 3, 3, 0, 3, 1, 2, 3, 11, 11, 11, 11] @ replicate 9 8))))
       = [[1, 2, 3]]
   \<and> fst (tls_new_ciphertext example_collaborators example_session_encrypted
         \<lparr>hdr_type = 23, hdr_version = 0x0303, hdr_length = 48\<rparr>
         (map (\<lambda>b. b XOR 0x5a) (replicate 16 0 @ [1, 2, 3] @ replicate 20 7 @ replicate 9 8)))
       = None
   \<and> plainstream_delivered (snd (tls_new_ciphertext example_collaborators example_session_encrypted
         \<lparr>hdr_type = 23, hdr_version = 0x0303, hdr_length = 48\<rparr>
         (map (\<lambda>b. b XOR 0x5a) (replicate 16 0 @ [1, 2, 3] @ replicate 20 7 @ replicate 9 8))))
       = []
   \<and> fst (tls_newdata_process_data example_collaborators
         (example_session_encrypted\<lparr>rx_state := TLS_RX_DATA, rx_header := [23, 3, 3, 0, 48],
            rx_data := Some (map (\<lambda>b. b XOR 0x5a)
              (replicate 16 0 @ [1, 2, 3] @ replicate 20 7 @ replicate 9 8))\<rparr>))
       = None
   \<and> rx_seq (snd (tls_newdata_process_data example_collaborators
         (example_session_encrypted\<lparr>rx_state := TLS_RX_DATA, rx_header := [23, 3, 3, 0, 48],
            rx_data := Some (map (\<lambda>b. b XOR 0x5a)
              (replicate 16 0 @ [1, 2, 3] @ replicate 20 7 @ replicate 9 8))\<rparr>)))
       = 2
   \<and> shutdown_rc (snd (tls_newdata_process_data example_collaborators
         (example_session_encrypted\<lparr>rx_state := TLS_RX_DATA, rx_header := [23, 3, 3, 0, 48],
            rx_data := Some (map (\<lambda>b. b XOR 0x5a)
              (replicate 16 0 @ [1, 2, 3] @ replicate 20 7 @ replicate 9 8))\<rparr>)))
       = None"
  by code_simp

section \<open>Sending a record\<close>

text \<open>
  C8: \<open>tls_send_plaintext\<close> encrypts with a copy of the active TX cipher context. When
  it fails, whether on an allocation or on the delivery of the ciphertext, \<open>tx_seq\<close> and
  the active TX cipher context are as before, and nothing was handed downstream. When it
  succeeds, the ciphertext (the header followed by the encryption of the assembled
  plaintext under the context that was active) was accepted downstream, the active
  context is the context the encryption left, and \<open>tx_seq\<close> is one more.
\<close>

theorem tls_send_plaintext_commit:
  fixes env tls type data
  defines "active \<equiv> cipher_ctx (tx_cipherspec tls)"
    and "cipher' \<equiv> cipher (suite (tx_cipherspec tls))"
    and "mac \<equiv> tls_hmac env (tx_cipherspec tls) (tx_seq tls)
                  \<lparr>hdr_type = ucast type, hdr_version = version tls,
                   hdr_length = of_nat (length data)\<rparr> data"
    and "result \<equiv> tls_send_plaintext env tls type data"
  shows "(fst result \<noteq> None \<longrightarrow>
            tx_seq (snd result) = tx_seq tls
          \<and> cipher_ctx (tx_cipherspec (snd result)) = active
          \<and> cipherstream_sent (snd result) = cipherstream_sent tls)
       \<and> (fst result = None \<longrightarrow>
            (\<exists>plaintext ciphertext.
                (if is_stream_cipher cipher' then tls_assemble_stream env tls data mac
                 else tls_assemble_block env tls data mac) = Some plaintext
              \<and> ciphertext =
                  tls_header_bytes \<lparr>hdr_type = ucast type, hdr_version = version tls,
                                    hdr_length = of_nat (length plaintext)\<rparr>
                    @ fit (length plaintext) (snd (cipher_encrypt env cipher' active plaintext))
              \<and> xfer_deliver_iob env ciphertext = None
              \<and> cipherstream_sent (snd result) = cipherstream_sent tls @ [ciphertext]
              \<and> cipher_ctx (tx_cipherspec (snd result))
                  = fst (cipher_encrypt env cipher' active plaintext)
              \<and> tx_seq (snd result) = tx_seq tls + 1))"
  unfolding result_def active_def cipher'_def mac_def
  by (auto simp add: tls_send_plaintext_def Let_def split: option.splits)

theorem tls_send_plaintext_commit_witness:
  "fst (tls_send_plaintext example_collaborators example_session_encrypted TLS_TYPE_DATA [1, 2, 3])
     = None
   \<and> tx_seq (snd (tls_send_plaintext example_collaborators example_session_encrypted
        TLS_TYPE_DATA [1, 2, 3])) = 2
   \<and> cipher_ctx (tx_cipherspec (snd (tls_send_plaintext example_collaborators
        example_session_encrypted TLS_TYPE_DATA [1, 2, 3]))) = [8, 8, 8, 8]
   \<and> fst (tls_send_plaintext (example_collaborators\<lparr>xfer_deliver_iob := \<lambda>iobuf. Some EIO\<rparr>)
        example_session_encrypted TLS_TYPE_DATA [1, 2, 3]) = Some EIO
   \<and> tx_seq (snd (tls_send_plaintext (example_collaborators\<lparr>xfer_deliver_iob := \<lambda>iobuf. Some EIO\<rparr>)
        example_session_encrypted TLS_TYPE_DATA [1, 2, 3])) = 1
   \<and> cipher_ctx (tx_cipherspec (snd (tls_send_plaintext
        (example_collaborators\<lparr>xfer_deliver_iob := \<lambda>iobuf. Some EIO\<rparr>)
        example_session_encrypted TLS_TYPE_DATA [1, 2, 3]))) = [1, 2, 3, 4]"
proof -
  have ok: "fst (tls_send_plaintext example_collaborators example_session_encrypted
                   TLS_TYPE_DATA [1, 2, 3]) = None"
    by code_simp
  have failed: "fst (tls_send_plaintext
                  (example_collaborators\<lparr>xfer_deliver_iob := \<lambda>iobuf. Some EIO\<rparr>)
                  example_session_encrypted TLS_TYPE_DATA [1, 2, 3]) = Some EIO"
    by code_simp
  have seq: "tx_seq example_session_encrypted = 1"
    and ctx: "cipher_ctx (tx_cipherspec example_session_encrypted) = [1, 2, 3, 4]"
    by code_simp+
  have new_ctx: "cipher_ctx (tx_cipherspec (snd (tls_send_plaintext example_collaborators
        example_session_encrypted TLS_TYPE_DATA [1, 2, 3]))) = [8, 8, 8, 8]"
    by code_simp
  have "tx_seq (snd (tls_send_plaintext example_collaborators example_session_encrypted
          TLS_TYPE_DATA [1, 2, 3])) = tx_seq example_session_encrypted + 1"
    using ok tls_send_plaintext_commit [of example_collaborators example_session_encrypted
        TLS_TYPE_DATA "[1, 2, 3]"]
    by blast
  moreover have "tx_seq (snd (tls_send_plaintext
          (example_collaborators\<lparr>xfer_deliver_iob := \<lambda>iobuf. Some EIO\<rparr>)
          example_session_encrypted TLS_TYPE_DATA [1, 2, 3])) = tx_seq example_session_encrypted
      \<and> cipher_ctx (tx_cipherspec (snd (tls_send_plaintext
          (example_collaborators\<lparr>xfer_deliver_iob := \<lambda>iobuf. Some EIO\<rparr>)
          example_session_encrypted TLS_TYPE_DATA [1, 2, 3])))
          = cipher_ctx (tx_cipherspec example_session_encrypted)"
    using failed tls_send_plaintext_commit
        [of "example_collaborators\<lparr>xfer_deliver_iob := \<lambda>iobuf. Some EIO\<rparr>"
          example_session_encrypted TLS_TYPE_DATA "[1, 2, 3]"]
    by simp
  ultimately show ?thesis
    using ok failed new_ctx by (simp add: seq ctx)
qed

section \<open>Server Hello\<close>

lemma tls_set_cipher_rc:
  "fst (tls_set_cipher env cipherspec suite') = None \<or> fst (tls_set_cipher env cipherspec suite') = Some ENOMEM"
  by (simp add: tls_set_cipher_def Let_def)

lemma tls_select_cipher_frame:
  "snd (tls_select_cipher env tls cipher_suite) =
     tls\<lparr>tx_cipherspec_pending := tx_cipherspec_pending (snd (tls_select_cipher env tls cipher_suite)),
         rx_cipherspec_pending := rx_cipherspec_pending (snd (tls_select_cipher env tls cipher_suite))\<rparr>"
  by (simp add: tls_select_cipher_def split: option.splits prod.splits)

lemma tls_select_cipher_rc:
  "fst (tls_select_cipher env tls cipher_suite) \<in> {None, Some ENOTSUP, Some ENOMEM}"
proof (cases "tls_find_cipher_suite cipher_suite")
  case None
  then show ?thesis by (simp add: tls_select_cipher_def)
next
  case (Some suite')
  show ?thesis
    using tls_set_cipher_rc [of env "tx_cipherspec_pending tls" suite']
      tls_set_cipher_rc [of env "rx_cipherspec_pending
         (tls\<lparr>tx_cipherspec_pending := snd (tls_set_cipher env (tx_cipherspec_pending tls) suite')\<rparr>)" suite']
    by (auto simp add: tls_select_cipher_def Some Let_def split: option.splits prod.splits)
qed

lemma tls_generate_master_secret_frame:
  "tls_generate_master_secret env tls =
     tls\<lparr>master_secret := master_secret (tls_generate_master_secret env tls)\<rparr>"
  by (simp add: tls_generate_master_secret_def)

lemma tls_generate_keys_frame:
  "snd (tls_generate_keys env tls) =
     tls\<lparr>tx_cipherspec_pending := tx_cipherspec_pending (snd (tls_generate_keys env tls)),
         rx_cipherspec_pending := rx_cipherspec_pending (snd (tls_generate_keys env tls))\<rparr>"
  by (simp add: tls_generate_keys_def Let_def split: option.splits prod.splits)

text \<open>
  The session after \<open>tls_new_server_hello\<close> got past its checks of the length and of
  the version: the version, the transcript digest and the server random are set, and
  apart from them only the pending cipher specifications and the master secret differ.
\<close>

lemma tls_new_server_hello_accepted:
  assumes "2 + 32 + 1 + unat (byte_at data 34) + 2 + 1 \<le> length data"
    and "TLS_VERSION_TLS_1_0 \<le> ntohs_at data 0" and "ntohs_at data 0 \<le> version tls"
  shows "\<exists>tx rx ms.
     snd (tls_new_server_hello env tls data) =
       tls\<lparr>version := ntohs_at data 0,
           handshake_digest := (if ntohs_at data 0 < TLS_VERSION_TLS_1_2
                                then md5_sha1_algorithm else handshake_digest tls),
           handshake_ctx := (if ntohs_at data 0 < TLS_VERSION_TLS_1_2
                             then Handshake_md5_sha1_ctx else handshake_ctx tls),
           server_random := take 32 (drop 2 data),
           tx_cipherspec_pending := tx, rx_cipherspec_pending := rx, master_secret := ms\<rparr>"
proof -
  define tls1 where "tls1 =
       tls\<lparr>version := ntohs_at data 0,
           handshake_digest := (if ntohs_at data 0 < TLS_VERSION_TLS_1_2
                                then md5_sha1_algorithm else handshake_digest tls),
           handshake_ctx := (if ntohs_at data 0 < TLS_VERSION_TLS_1_2
                             then Handshake_md5_sha1_ctx else handshake_ctx tls),
           server_random := take 32 (drop 2 data)\<rparr>"
  define sel where "sel = tls_select_cipher env tls1 (ntohs_at data (2 + 32 + 1 + unat (byte_at data 34)))"
  have unfold: "tls_new_server_hello env tls data =
      (case sel of (Some rc, tls2) \<Rightarrow> (Some rc, tls2)
       | (None, tls2) \<Rightarrow> tls_generate_keys env (tls_generate_master_secret env tls2))"
    using assms
    by (simp add: tls_new_server_hello_def Let_def sel_def tls1_def not_less [symmetric]
        split: prod.splits option.splits)
  have sel: "snd sel = tls1\<lparr>tx_cipherspec_pending := tx_cipherspec_pending (snd sel),
                            rx_cipherspec_pending := rx_cipherspec_pending (snd sel)\<rparr>"
    unfolding sel_def by (rule tls_select_cipher_frame)
  show ?thesis
  proof (cases "fst sel")
    case (Some rc)
    then have "snd (tls_new_server_hello env tls data) = snd sel"
      by (cases sel) (simp add: unfold)
    moreover have "snd sel =
        tls1\<lparr>tx_cipherspec_pending := tx_cipherspec_pending (snd sel),
             rx_cipherspec_pending := rx_cipherspec_pending (snd sel),
             master_secret := master_secret tls\<rparr>"
      by (subst sel) (simp add: tls1_def)
    ultimately have "snd (tls_new_server_hello env tls data) =
        tls1\<lparr>tx_cipherspec_pending := tx_cipherspec_pending (snd sel),
             rx_cipherspec_pending := rx_cipherspec_pending (snd sel),
             master_secret := master_secret tls\<rparr>"
      by (simp only:)
    then show ?thesis unfolding tls1_def by blast
  next
    case None
    define tls3 where "tls3 = tls_generate_master_secret env (snd sel)"
    have r: "snd (tls_new_server_hello env tls data) = snd (tls_generate_keys env tls3)"
      using None by (cases sel) (simp add: unfold tls3_def)
    have "tls3 = (snd sel)\<lparr>master_secret := master_secret tls3\<rparr>"
      unfolding tls3_def by (rule tls_generate_master_secret_frame)
    then have t3: "tls3 = tls1\<lparr>tx_cipherspec_pending := tx_cipherspec_pending (snd sel),
                            rx_cipherspec_pending := rx_cipherspec_pending (snd sel),
                            master_secret := master_secret tls3\<rparr>"
      by (subst (asm) sel) simp
    have "snd (tls_generate_keys env tls3) =
        tls1\<lparr>tx_cipherspec_pending := tx_cipherspec_pending (snd (tls_generate_keys env tls3)),
             rx_cipherspec_pending := rx_cipherspec_pending (snd (tls_generate_keys env tls3)),
             master_secret := master_secret tls3\<rparr>"
      by (subst tls_generate_keys_frame, subst t3) simp
    then show ?thesis unfolding r tls1_def by blast
  qed
qed

text \<open>
  C3: for a Server Hello whose fixed fields lie within the record and that carries the
  version \<open>v\<close>: if \<open>v\<close> is below TLS 1.0 the handler fails with \<open>ENOTSUP\<close>; otherwise, if
  \<open>v\<close> is above the version of the session, it fails with \<open>EPROTO\<close>; otherwise the
  version of the session becomes \<open>v\<close>, and the handshake digest and its context become
  MD5+SHA-1 exactly when \<open>v\<close> is below TLS 1.2 and stay as they were otherwise.
\<close>

theorem tls_new_server_hello_version:
  fixes env tls data
  defines "v \<equiv> ntohs_at data 0"
    and "result \<equiv> tls_new_server_hello env tls data"
  assumes "2 + 32 + 1 + unat (byte_at data 34) + 2 + 1 \<le> length data"
  shows "(v < TLS_VERSION_TLS_1_0 \<longrightarrow> result = (Some ENOTSUP, tls))
       \<and> (TLS_VERSION_TLS_1_0 \<le> v \<and> version tls < v \<longrightarrow> result = (Some EPROTO, tls))
       \<and> (TLS_VERSION_TLS_1_0 \<le> v \<and> v \<le> version tls \<longrightarrow>
            version (snd result) = v
          \<and> handshake_digest (snd result) =
              (if v < TLS_VERSION_TLS_1_2 then md5_sha1_algorithm else handshake_digest tls)
          \<and> handshake_ctx (snd result) =
              (if v < TLS_VERSION_TLS_1_2 then Handshake_md5_sha1_ctx else handshake_ctx tls))"
proof (intro conjI impI)
  assume "v < TLS_VERSION_TLS_1_0"
  then show "result = (Some ENOTSUP, tls)"
    using assms by (simp add: tls_new_server_hello_def Let_def)
next
  assume "TLS_VERSION_TLS_1_0 \<le> v \<and> version tls < v"
  then show "result = (Some EPROTO, tls)"
    using assms by (simp add: tls_new_server_hello_def Let_def not_less [symmetric])
next
  assume ok: "TLS_VERSION_TLS_1_0 \<le> v \<and> v \<le> version tls"
  then obtain tx rx ms where r: "snd result =
       tls\<lparr>version := v,
           handshake_digest := (if v < TLS_VERSION_TLS_1_2
                                then md5_sha1_algorithm else handshake_digest tls),
           handshake_ctx := (if v < TLS_VERSION_TLS_1_2
                             then Handshake_md5_sha1_ctx else handshake_ctx tls),
           server_random := take 32 (drop 2 data),
           tx_cipherspec_pending := tx, rx_cipherspec_pending := rx, master_secret := ms\<rparr>"
    using tls_new_server_hello_accepted [of data tls env] assms unfolding v_def result_def
    by blast
  show "version (snd result) = v" by (simp add: r)
  show "handshake_digest (snd result) =
      (if v < TLS_VERSION_TLS_1_2 then md5_sha1_algorithm else handshake_digest tls)"
    by (simp add: r)
  show "handshake_ctx (snd result) =
      (if v < TLS_VERSION_TLS_1_2 then Handshake_md5_sha1_ctx else handshake_ctx tls)"
    by (simp add: r)
qed

theorem tls_new_server_hello_version_witness:
  "2 + 32 + 1 + unat (byte_at ([3, 1] @ replicate 32 9 @ [0, 0, 0x2f, 0]) 34) + 2 + 1
     \<le> length ([3, 1] @ replicate 32 9 @ [0, 0, 0x2f, 0 :: byte])
   \<and> version (snd (tls_new_server_hello example_collaborators example_session
         ([3, 1] @ replicate 32 9 @ [0, 0, 0x2f, 0]))) = TLS_VERSION_TLS_1_0
   \<and> handshake_digest (snd (tls_new_server_hello example_collaborators example_session
         ([3, 1] @ replicate 32 9 @ [0, 0, 0x2f, 0]))) = md5_sha1_algorithm
   \<and> handshake_digest (snd (tls_new_server_hello example_collaborators example_session
         ([3, 3] @ replicate 32 9 @ [0, 0, 0x2f, 0]))) = sha256_algorithm
   \<and> tls_new_server_hello example_collaborators example_session
         ([3, 0] @ replicate 32 9 @ [0, 0, 0x2f, 0]) = (Some ENOTSUP, example_session)
   \<and> tls_new_server_hello example_collaborators example_session
         ([3, 4] @ replicate 32 9 @ [0, 0, 0x2f, 0]) = (Some EPROTO, example_session)"
proof -
  have len: "2 + 32 + 1 + unat (byte_at ([a, b] @ replicate 32 9 @ [0, 0, 0x2f, 0]) 34) + 2 + 1
     \<le> length ([a, b] @ replicate 32 9 @ [0, 0, 0x2f, 0 :: byte])" for a b
    by (simp add: byte_at_def nth_append)
  have v: "ntohs_at ([3, 1] @ replicate 32 9 @ [0, 0, 0x2f, 0]) 0 = 0x0301"
    "ntohs_at ([3, 3] @ replicate 32 9 @ [0, 0, 0x2f, 0]) 0 = 0x0303"
    "ntohs_at ([3, 0] @ replicate 32 9 @ [0, 0, 0x2f, 0]) 0 = 0x0300"
    "ntohs_at ([3, 4] @ replicate 32 9 @ [0, 0, 0x2f, 0]) 0 = 0x0304"
    by (simp_all add: ntohs_at_def byte_at_def)
  have s: "version example_session = 0x0303" "handshake_digest example_session = sha256_algorithm"
    by (simp_all add: example_session_def TLS_VERSION_TLS_1_2_def)
  show ?thesis
    using len [of 3 1]
      tls_new_server_hello_version [OF len [of 3 1], of example_collaborators example_session]
      tls_new_server_hello_version [OF len [of 3 3], of example_collaborators example_session]
      tls_new_server_hello_version [OF len [of 3 0], of example_collaborators example_session]
      tls_new_server_hello_version [OF len [of 3 4], of example_collaborators example_session]
    unfolding v s
    by (simp add: TLS_VERSION_TLS_1_0_def TLS_VERSION_TLS_1_2_def)
qed

text \<open>
  A Server Hello of 37 bytes that carries the version 3.0, below TLS 1.0, with an empty
  session identifier: the fixed fields take 38 bytes, so \<open>tls_new_server_hello\<close> rejects
  the record with \<open>EINVAL\<close> at its length check, before it looks at the version; the status
  is not \<open>ENOTSUP\<close>.
\<close>

theorem tls_new_server_hello_short_record:
  "length ([3, 0] @ replicate 35 (0 :: byte)) = 37
   \<and> ntohs_at ([3, 0] @ replicate 35 0) 0 = 0x0300
   \<and> ntohs_at ([3, 0] @ replicate 35 0) 0 < TLS_VERSION_TLS_1_0
   \<and> tls_new_server_hello example_collaborators example_session ([3, 0] @ replicate 35 0)
       = (Some EINVAL, example_session)
   \<and> fst (tls_new_server_hello example_collaborators example_session ([3, 0] @ replicate 35 0))
       \<noteq> Some ENOTSUP"
proof -
  have v: "ntohs_at ([3, 0] @ replicate 35 0) 0 = 0x0300"
    by (simp add: ntohs_at_def byte_at_def)
  have sid: "byte_at ([3, 0] @ replicate 35 0) 34 = 0"
    by (simp add: byte_at_def nth_append)
  have r: "tls_new_server_hello example_collaborators example_session ([3, 0] @ replicate 35 0)
             = (Some EINVAL, example_session)"
    unfolding tls_new_server_hello_def Let_def sid by simp
  show ?thesis
    unfolding r v by (simp add: TLS_VERSION_TLS_1_0_def)
qed

lemma byte_at_append: "i < length m \<Longrightarrow> byte_at (m @ r) i = byte_at m i"
  by (simp add: byte_at_def nth_append)

lemma ntohs_at_append: "i + 1 < length m \<Longrightarrow> ntohs_at (m @ r) i = ntohs_at m i"
  by (simp add: ntohs_at_def byte_at_append)

lemma tls_generate_keys_rc:
  assumes "\<And>c ctx key. fst (cipher_setkey env c ctx key) \<noteq> Some e"
  shows "fst (tls_generate_keys env tls) \<noteq> Some e"
proof -
  have r: "cipher_setkey env c ctx key \<noteq> (Some e, x)" for c ctx key x
    using assms [of c ctx key] by auto
  show ?thesis
    unfolding tls_generate_keys_def Let_def
    by (auto simp add: r split: prod.splits option.splits)
qed

lemma tls_select_cipher_ok:
  assumes "tls_find_cipher_suite cipher_suite \<noteq> None" and "\<And>len. malloc_ok env len"
  shows "fst (tls_select_cipher env tls cipher_suite) = None"
  using assms by (auto simp add: tls_select_cipher_def tls_set_cipher_def Let_def)

lemma case_rc_None:
  "fst x = None \<Longrightarrow> (case x of (Some rc, y) \<Rightarrow> f rc y | (None, y) \<Rightarrow> g y) = g (snd x)"
  by (cases x) simp

lemma tls_generate_keys_ok:
  assumes "\<And>c ctx key. fst (cipher_setkey env c ctx key) = None"
  shows "fst (tls_generate_keys env tls) = None"
  unfolding tls_generate_keys_def Let_def
  by (simp add: case_rc_None assms)

lemma tls_new_server_hello_accepts:
  assumes "2 + 32 + 1 + unat (byte_at data 34) + 2 + 1 \<le> length data"
    and "TLS_VERSION_TLS_1_0 \<le> ntohs_at data 0" and "ntohs_at data 0 \<le> version tls"
    and "tls_find_cipher_suite (ntohs_at data (2 + 32 + 1 + unat (byte_at data 34))) \<noteq> None"
    and "\<And>len. malloc_ok env len"
    and "\<And>c ctx key. fst (cipher_setkey env c ctx key) = None"
  shows "fst (tls_new_server_hello env tls data) = None"
proof -
  have "tls_find_cipher_suite (ntohs_at data (35 + unat (byte_at data 34))) \<noteq> None"
    using assms(4) by simp
  then have s: "fst (tls_select_cipher env t (ntohs_at data (35 + unat (byte_at data 34)))) = None"
    for t
    using assms(5) by (rule tls_select_cipher_ok)
  show ?thesis
    using assms(1-3) unfolding tls_new_server_hello_def Let_def
    by (simp add: not_less [symmetric] case_rc_None s tls_generate_keys_ok [OF assms(6)])
qed

text \<open>
  C10: \<open>tls_new_server_hello\<close> rejects the record at its length check, with \<open>EINVAL\<close>
  and the session untouched, when the fixed fields (version, random, session ID length
  and session ID, cipher suite, compression method) reach past the end of the record.
  When they do not, bytes that follow the compression method change nothing: the
  result is the result for the record without them. The handler itself returns \<open>EINVAL\<close>
  nowhere else: when the fixed fields fit and the cipher's \<open>setkey\<close> does not return
  \<open>EINVAL\<close>, the status is not \<open>EINVAL\<close>.
\<close>

theorem tls_new_server_hello_length:
  fixes env tls data extra
  defines "end \<equiv> 2 + 32 + 1 + unat (byte_at data 34) + 2 + 1"
  shows "(length data < end \<longrightarrow> tls_new_server_hello env tls data = (Some EINVAL, tls))
       \<and> (end \<le> length data \<longrightarrow>
            tls_new_server_hello env tls (data @ extra) = tls_new_server_hello env tls data)
       \<and> (end \<le> length data \<and> (\<forall>c ctx key. fst (cipher_setkey env c ctx key) \<noteq> Some EINVAL) \<longrightarrow>
            fst (tls_new_server_hello env tls data) \<noteq> Some EINVAL)"
proof (intro conjI impI)
  assume "length data < end"
  then show "tls_new_server_hello env tls data = (Some EINVAL, tls)"
    by (simp add: tls_new_server_hello_def Let_def end_def)
next
  assume fits: "end \<le> length data"
  then have b: "byte_at (data @ extra) 34 = byte_at data 34"
    by (simp add: byte_at_append end_def)
  have v: "ntohs_at (data @ extra) 0 = ntohs_at data 0"
    using fits by (simp add: ntohs_at_append end_def)
  have c: "ntohs_at (data @ extra) (2 + 32 + 1 + unat (byte_at data 34))
             = ntohs_at data (2 + 32 + 1 + unat (byte_at data 34))"
    using fits by (simp add: ntohs_at_append end_def)
  have r: "take 32 (drop 2 (data @ extra)) = take 32 (drop 2 data)"
    using fits by (simp add: end_def)
  have l: "(2 + 32 + 1 + unat (byte_at data 34) + 2 + 1 > length (data @ extra)) = False"
    "(2 + 32 + 1 + unat (byte_at data 34) + 2 + 1 > length data) = False"
    using fits by (simp_all add: end_def)
  show "tls_new_server_hello env tls (data @ extra) = tls_new_server_hello env tls data"
    unfolding tls_new_server_hello_def Let_def b v c r l ..
next
  assume a: "end \<le> length data \<and> (\<forall>c ctx key. fst (cipher_setkey env c ctx key) \<noteq> Some EINVAL)"
  define tls1 where "tls1 = (if ntohs_at data 0 < TLS_VERSION_TLS_1_2
         then tls\<lparr>version := ntohs_at data 0, handshake_digest := md5_sha1_algorithm,
                  handshake_ctx := Handshake_md5_sha1_ctx\<rparr>
         else tls\<lparr>version := ntohs_at data 0\<rparr>)\<lparr>server_random := take 32 (drop 2 data)\<rparr>"
  define sel where "sel = tls_select_cipher env tls1 (ntohs_at data (2 + 32 + 1 + unat (byte_at data 34)))"
  have keys: "fst (tls_generate_keys env t) \<noteq> Some EINVAL" for t
    using a tls_generate_keys_rc [of env EINVAL t] by blast
  have selrc: "fst sel \<in> {None, Some ENOTSUP, Some ENOMEM}"
    unfolding sel_def by (rule tls_select_cipher_rc)
  have "fst (tls_new_server_hello env tls data) \<in>
          {Some ENOTSUP, Some EPROTO, fst sel,
           fst (tls_generate_keys env (tls_generate_master_secret env (snd sel)))}"
    using a unfolding tls_new_server_hello_def Let_def end_def sel_def tls1_def
    by (auto split: option.splits prod.splits)
  then show "fst (tls_new_server_hello env tls data) \<noteq> Some EINVAL"
    using keys selrc by auto
qed

theorem tls_new_server_hello_length_witness:
  "tls_new_server_hello example_collaborators example_session ([3, 3] @ replicate 32 9 @ [0, 0, 0x2f])
     = (Some EINVAL, example_session)
   \<and> fst (tls_new_server_hello example_collaborators example_session
            ([3, 3] @ replicate 32 9 @ [0, 0, 0x2f, 0])) = None
   \<and> tls_new_server_hello example_collaborators example_session
        (([3, 3] @ replicate 32 9 @ [0, 0, 0x2f, 0]) @ [0, 5, 0xff, 1, 0, 1, 0])
      = tls_new_server_hello example_collaborators example_session
          ([3, 3] @ replicate 32 9 @ [0, 0, 0x2f, 0])"
proof -
  have short: "length ([3, 3] @ replicate 32 9 @ [0, 0, 0x2f :: byte])
      < 2 + 32 + 1 + unat (byte_at ([3, 3] @ replicate 32 9 @ [0, 0, 0x2f]) 34) + 2 + 1"
    by (simp add: byte_at_def nth_append)
  have fits: "2 + 32 + 1 + unat (byte_at ([3, 3] @ replicate 32 9 @ [0, 0, 0x2f, 0]) 34) + 2 + 1
      \<le> length ([3, 3] @ replicate 32 9 @ [0, 0, 0x2f, 0 :: byte])"
    by (simp add: byte_at_def nth_append)
  have accepted: "fst (tls_new_server_hello example_collaborators example_session
            ([3, 3] @ replicate 32 9 @ [0, 0, 0x2f, 0])) = None"
  proof (rule tls_new_server_hello_accepts [OF fits])
    show "TLS_VERSION_TLS_1_0 \<le> ntohs_at ([3, 3] @ replicate 32 9 @ [0, 0, 0x2f, 0]) 0"
      by (simp add: ntohs_at_def byte_at_def TLS_VERSION_TLS_1_0_def)
    show "ntohs_at ([3, 3] @ replicate 32 9 @ [0, 0, 0x2f, 0]) 0 \<le> version example_session"
      by (simp add: ntohs_at_def byte_at_def example_session_def TLS_VERSION_TLS_1_2_def)
    show "tls_find_cipher_suite (ntohs_at ([3, 3] @ replicate 32 9 @ [0, 0, 0x2f, 0])
            (2 + 32 + 1 + unat (byte_at ([3, 3] @ replicate 32 9 @ [0, 0, 0x2f, 0]) 34))) \<noteq> None"
      by code_simp
    show "malloc_ok example_collaborators len" for len
      by (simp add: example_collaborators_def)
    show "fst (cipher_setkey example_collaborators c ctx key) = None" for c ctx key
      by (simp add: example_collaborators_def)
  qed
  show ?thesis
    using short fits accepted
      tls_new_server_hello_length [of "[3, 3] @ replicate 32 9 @ [0, 0, 0x2f]"
        example_collaborators example_session "[]"]
      tls_new_server_hello_length [of "[3, 3] @ replicate 32 9 @ [0, 0, 0x2f, 0]"
        example_collaborators example_session "[0, 5, 0xff, 1, 0, 1, 0]"]
    by blast
qed

section \<open>The pseudo-random function\<close>

lemma length_fit: "length (fit n xs) = n"
  by (simp add: fit_def)

lemma length_hmac_final: "length (hmac_final env d ctx key) = digestsize d"
  by (simp add: hmac_final_def length_fit)

lemma length_spec_output: "length (spec_output env H secret seed i) = digestsize H"
  by (simp add: spec_output_def spec_HMAC_def length_hmac_final)

lemma tls_hmac_update_va_concat: "tls_hmac_update_va ctx seeds = ctx @ concat seeds"
  by (induction seeds arbitrary: ctx) (simp_all add: hmac_update_def)

lemma length_concat_outputs:
  "length (concat (map (spec_output env H secret seed) [a..<a + m])) = m * digestsize H"
  by (induction m) (simp_all add: length_spec_output)

lemma take_concat_outputs:
  assumes "t \<le> j * digestsize H" and "j \<le> m"
  shows "take t (concat (map (spec_output env H secret seed) [a..<a + m]))
           = take t (concat (map (spec_output env H secret seed) [a..<a + j]))"
proof -
  have "[a..<a + j + (m - j)] = [a..<a + j] @ [a + j..<a + j + (m - j)]"
    by (rule upt_add_eq_append) simp
  moreover have "a + j + (m - j) = a + m" using assms(2) by simp
  ultimately have "[a..<a + m] = [a..<a + j] @ [a + j..<a + m]"
    by (simp only:)
  then have "concat (map (spec_output env H secret seed) [a..<a + m])
      = concat (map (spec_output env H secret seed) [a..<a + j])
        @ concat (map (spec_output env H secret seed) [a + j..<a + m])"
    by simp
  then show ?thesis
    using assms(1) by (simp add: length_concat_outputs)
qed

text \<open>
  The loop of \<open>tls_p_hash_va\<close>, entered with \<open>a = A(k + 1)\<close> and the digest size as
  \<open>frag_len\<close>, returns, having appended the first \<open>out_len\<close> bytes of
  \<open>output_(k+1)\<close>, \<open>output_(k+2)\<close>, \<open>\<dots>\<close>.
\<close>

lemma tls_p_hash_va_loop_outputs:
  assumes "0 < digestsize H"
  shows "tls_p_hash_va_loop env H secret seeds (spec_A env H secret (concat seeds) (Suc k))
           (digestsize H) out n
         = Some (out @ take n (concat (map (spec_output env H secret (concat seeds))
                                          [Suc k..<Suc k + n])))"
proof (induction n arbitrary: k out rule: less_induct)
  case (less n)
  let ?B = "spec_output env H secret (concat seeds)"
  let ?a = "spec_A env H secret (concat seeds) (Suc k)"
  show ?case
  proof (cases "n = 0")
    case True
    then show ?thesis by (subst tls_p_hash_va_loop.simps) simp
  next
    case False
    have out_tmp: "hmac_final env H (tls_hmac_update_va (hmac_update hmac_init ?a) seeds) secret
                     = ?B (Suc k)"
      by (simp add: tls_hmac_update_va_concat hmac_update_def hmac_init_def spec_output_def
          spec_HMAC_def)
    have a': "hmac_final env H (hmac_update hmac_init ?a) secret
                = spec_A env H secret (concat seeds) (Suc (Suc k))"
      by (simp add: hmac_update_def hmac_init_def spec_HMAC_def)
    have range: "[Suc k..<Suc k + n] = Suc k # [Suc (Suc k)..<Suc (Suc k) + (n - 1)]"
      using False by (simp add: upt_conv_Cons)
    show ?thesis
    proof (cases "digestsize H \<le> n")
      case True
      have step: "tls_p_hash_va_loop env H secret seeds ?a (digestsize H) out n
            = tls_p_hash_va_loop env H secret seeds
                (spec_A env H secret (concat seeds) (Suc (Suc k))) (digestsize H)
                (out @ ?B (Suc k)) (n - digestsize H)"
        using False True
        by (subst tls_p_hash_va_loop.simps)
          (simp add: Let_def out_tmp a' length_spec_output del: spec_A.simps)
      have "n - digestsize H < n" using assms False by simp
      then have ih: "tls_p_hash_va_loop env H secret seeds
                (spec_A env H secret (concat seeds) (Suc (Suc k))) (digestsize H)
                (out @ ?B (Suc k)) (n - digestsize H)
           = Some ((out @ ?B (Suc k)) @ take (n - digestsize H)
                (concat (map ?B [Suc (Suc k)..<Suc (Suc k) + (n - digestsize H)])))"
        by (rule less.IH)
      define R1 where "R1 = concat (map ?B [Suc (Suc k)..<Suc (Suc k) + (n - 1)])"
      define R2 where "R2 = concat (map ?B [Suc (Suc k)..<Suc (Suc k) + (n - digestsize H)])"
      have "take (n - digestsize H) R1 = take (n - digestsize H) R2"
        unfolding R1_def R2_def
      proof (rule take_concat_outputs)
        show "n - digestsize H \<le> (n - digestsize H) * digestsize H" using assms by simp
        show "n - digestsize H \<le> n - 1" using assms by simp
      qed
      moreover have "concat (map ?B [Suc k..<Suc k + n]) = ?B (Suc k) @ R1"
        unfolding R1_def by (simp only: range list.map concat.simps)
      ultimately have "take n (concat (map ?B [Suc k..<Suc k + n]))
          = ?B (Suc k) @ take (n - digestsize H) R2"
        using True by (simp add: length_spec_output)
      then show ?thesis
        unfolding step ih R2_def by simp
    next
      case short: False
      have step: "tls_p_hash_va_loop env H secret seeds ?a (digestsize H) out n
            = tls_p_hash_va_loop env H secret seeds
                (spec_A env H secret (concat seeds) (Suc (Suc k))) n
                (out @ take n (?B (Suc k))) 0"
        using False short
        by (subst tls_p_hash_va_loop.simps)
          (simp add: Let_def out_tmp a' length_spec_output del: spec_A.simps)
      have stop: "tls_p_hash_va_loop env H secret seeds
                (spec_A env H secret (concat seeds) (Suc (Suc k))) n
                (out @ take n (?B (Suc k))) 0 = Some (out @ take n (?B (Suc k)))"
        by (subst tls_p_hash_va_loop.simps) simp
      define R1 where "R1 = concat (map ?B [Suc (Suc k)..<Suc (Suc k) + (n - 1)])"
      have "concat (map ?B [Suc k..<Suc k + n]) = ?B (Suc k) @ R1"
        unfolding R1_def by (simp only: range list.map concat.simps)
      then have "take n (concat (map ?B [Suc k..<Suc k + n])) = take n (?B (Suc k))"
        using short by (simp add: length_spec_output)
      then show ?thesis
        unfolding step stop by simp
    qed
  qed
qed

lemma tls_p_hash_va_returns:
  assumes "0 < digestsize H"
  shows "tls_p_hash_va env H secret out_len seeds
           = Some (spec_P_hash env H secret (concat seeds) out_len)"
proof -
  have a: "hmac_final env H (tls_hmac_update_va hmac_init seeds) secret
             = spec_A env H secret (concat seeds) (Suc 0)"
    by (simp add: tls_hmac_update_va_concat hmac_init_def spec_HMAC_def)
  show ?thesis
    unfolding tls_p_hash_va_def Let_def a spec_P_hash_def
    using tls_p_hash_va_loop_outputs [OF assms, of env secret seeds 0 "[]" out_len]
    by simp
qed

lemma length_spec_P_hash:
  assumes "0 < digestsize H"
  shows "length (spec_P_hash env H secret seed out_len) = out_len"
proof -
  have "length (concat (map (spec_output env H secret seed) [1..<1 + out_len]))
          = out_len * digestsize H"
    by (rule length_concat_outputs)
  moreover have "out_len \<le> out_len * digestsize H" using assms by simp
  ultimately show ?thesis by (simp add: spec_P_hash_def)
qed

lemma tls_prf_xor_from:
  assumes "length out = n" and "length buf = n" and "i \<le> n"
  shows "tls_prf_xor out buf n i = take i out @ map2 (XOR) (drop i out) (drop i buf)"
  using assms
proof (induction out buf n i rule: tls_prf_xor.induct)
  case (1 out buf out_len i)
  show ?case
  proof (cases "i < out_len")
    case False
    then show ?thesis
      using "1.prems" by (subst tls_prf_xor.simps) simp
  next
    case True
    let ?out' = "out[i := byte_at out i XOR byte_at buf i]"
    have ih: "tls_prf_xor ?out' buf out_len (i + 1)
                = take (i + 1) ?out' @ map2 (XOR) (drop (i + 1) ?out') (drop (i + 1) buf)"
      using True "1.prems" by (intro "1.IH") simp_all
    have t: "take (i + 1) ?out' = take i out @ [out ! i XOR buf ! i]"
      using True "1.prems" by (simp add: take_Suc_conv_app_nth byte_at_def)
    have d: "drop (i + 1) ?out' = drop (i + 1) out"
      by simp
    have o: "drop i out = out ! i # drop (i + 1) out" and b: "drop i buf = buf ! i # drop (i + 1) buf"
      using True "1.prems" by (simp_all add: Cons_nth_drop_Suc)
    have "tls_prf_xor out buf out_len i = tls_prf_xor ?out' buf out_len (i + 1)"
      using True by (subst tls_prf_xor.simps) simp
    then show ?thesis
      unfolding ih t d o b by simp
  qed
qed

lemma tls_prf_xor_map2:
  assumes "length out = n" and "length buf = n"
  shows "tls_prf_xor out buf n 0 = map2 (XOR) out buf"
  using tls_prf_xor_from [OF assms, of 0] by simp

lemma tls_prf_refines:
  "tls_prf env tls secret out_len seeds
     = spec_prf env (version tls) secret (concat seeds) out_len"
proof -
  define half where "half = (length secret + 1) div 2"
  have p: "tls_p_hash_va env sha256_algorithm s out_len seeds
             = Some (spec_P_hash env sha256_algorithm s (concat seeds) out_len)"
    "tls_p_hash_va env md5_algorithm s out_len seeds
             = Some (spec_P_hash env md5_algorithm s (concat seeds) out_len)"
    "tls_p_hash_va env sha1_algorithm s out_len seeds
             = Some (spec_P_hash env sha1_algorithm s (concat seeds) out_len)" for s
    by (simp_all add: tls_p_hash_va_returns)
  have "length (drop (length secret - half) secret) = half" by (simp add: half_def)
  then have s2: "take half (drop (length secret - half) secret) = drop (length secret - half) secret"
    by simp
  have len: "length (spec_P_hash env md5_algorithm s (concat seeds) out_len) = out_len"
    "length (spec_P_hash env sha1_algorithm s (concat seeds) out_len) = out_len" for s
    by (simp_all add: length_spec_P_hash)
  show ?thesis
    unfolding tls_prf_def spec_prf_def Let_def half_def [symmetric]
    by (simp add: p s2 tls_prf_xor_map2 len)
qed

lemma length_spec_prf: "length (spec_prf env v secret seed out_len) = out_len"
  unfolding spec_prf_def Let_def by (simp add: length_spec_P_hash)

lemma tls_prf_label_refines:
  "tls_prf_label env tls secret out_len label seeds
     = spec_prf env (version tls) secret (label_bytes label @ concat seeds) out_len"
  by (simp add: tls_prf_label_def tls_prf_refines)

lemma length_tls_prf_label:
  "length (tls_prf_label env tls secret out_len label seeds) = out_len"
  by (simp add: tls_prf_label_refines length_spec_prf)

text \<open>
  C4: for every secret and seed, \<open>tls_prf\<close> is the PRF of the specification for the
  version of the session: at TLS 1.2 and later \<open>P_SHA256 (secret, label \<parallel> seed)\<close> cut to
  \<open>out_len\<close>; before, \<open>P_MD5 (S1, label \<parallel> seed) XOR P_SHA1 (S2, label \<parallel> seed)\<close>, where
  \<open>S1\<close> is the first and \<open>S2\<close> the last \<open>\<lceil>secret_len / 2\<rceil>\<close> bytes of the secret, which
  overlap by at most one byte. The seed is the label followed by the seed chunks.
\<close>

theorem tls_prf_label_spec:
  fixes env tls secret out_len label seeds
  defines "half \<equiv> (length secret + 1) div 2"
  shows "tls_prf_label env tls secret out_len label seeds
           = spec_prf env (version tls) secret (label_bytes label @ concat seeds) out_len
       \<and> spec_prf env (version tls) secret (label_bytes label @ concat seeds) out_len
           = (if version tls \<ge> TLS_VERSION_TLS_1_2
              then spec_P_hash env sha256_algorithm secret (label_bytes label @ concat seeds) out_len
              else map2 (XOR)
                     (spec_P_hash env md5_algorithm (take half secret)
                        (label_bytes label @ concat seeds) out_len)
                     (spec_P_hash env sha1_algorithm (drop (length secret - half) secret)
                        (label_bytes label @ concat seeds) out_len))
       \<and> length (take half secret) = half
       \<and> length (drop (length secret - half) secret) = half
       \<and> 2 * half - length secret \<le> 1
       \<and> length (tls_prf_label env tls secret out_len label seeds) = out_len"
proof -
  let ?seed = "label_bytes label @ concat seeds"
  have u: "spec_prf env (version tls) secret ?seed out_len
           = (if version tls \<ge> TLS_VERSION_TLS_1_2
              then spec_P_hash env sha256_algorithm secret ?seed out_len
              else map2 (XOR)
                     (spec_P_hash env md5_algorithm (take half secret) ?seed out_len)
                     (spec_P_hash env sha1_algorithm (drop (length secret - half) secret)
                        ?seed out_len))"
    unfolding spec_prf_def Let_def half_def ..
  have h1: "length (take half secret) = half" by (simp add: half_def)
  have h2: "length (drop (length secret - half) secret) = half" by (simp add: half_def)
  have o: "2 * half - length secret \<le> 1" by (simp add: half_def)
  show ?thesis
    using tls_prf_label_refines [of env tls secret out_len label seeds] u h1 h2 o
      length_tls_prf_label [of env tls secret out_len label seeds]
    by (simp only: simp_thms)
qed

theorem tls_prf_label_spec_witness:
  "tls_prf_label example_collaborators example_session [1, 2] 12 ''test label'' [[3]]
     = spec_P_hash example_collaborators sha256_algorithm [1, 2]
         (label_bytes ''test label'' @ [3]) 12
   \<and> tls_prf_label example_collaborators (example_session\<lparr>version := TLS_VERSION_TLS_1_1\<rparr>)
         [1, 2, 3] 12 ''test label'' [[3]]
     = map2 (XOR)
         (spec_P_hash example_collaborators md5_algorithm [1, 2] (label_bytes ''test label'' @ [3]) 12)
         (spec_P_hash example_collaborators sha1_algorithm [2, 3] (label_bytes ''test label'' @ [3]) 12)"
proof -
  have v: "TLS_VERSION_TLS_1_2 \<le> version example_session"
    "\<not> TLS_VERSION_TLS_1_2 \<le> version (example_session\<lparr>version := TLS_VERSION_TLS_1_1\<rparr>)"
    by (simp_all add: example_session_def TLS_VERSION_TLS_1_2_def TLS_VERSION_TLS_1_1_def)
  show ?thesis
    using tls_prf_label_spec [of example_collaborators example_session "[1, 2]" 12
        "''test label''" "[[3]]"]
      tls_prf_label_spec [of example_collaborators
        "example_session\<lparr>version := TLS_VERSION_TLS_1_1\<rparr>" "[1, 2, 3]" 12
        "''test label''" "[[3]]"]
    by (simp only: v if_True if_False) simp
qed

section \<open>Key derivation\<close>

lemma tls_generate_keys_unfold:
  fixes env tls
  defines "txp \<equiv> tx_cipherspec_pending tls" and "rxp \<equiv> rx_cipherspec_pending tls"
  defines "digest_size \<equiv> digestsize (digest (suite txp))"
    and "key_size \<equiv> key_len (suite txp)"
    and "iv_size \<equiv> blocksize (cipher (suite txp))"
  defines "key_block \<equiv>
      tls_prf_label env tls (master_secret tls) (2 * (digest_size + key_size + iv_size))
        ''key expansion'' [server_random tls, client_random tls]"
  defines "tx_mac \<equiv> take digest_size key_block"
    and "rx_mac \<equiv> take digest_size (drop digest_size key_block)"
    and "tx_key \<equiv> take key_size (drop (2 * digest_size) key_block)"
    and "rx_key \<equiv> take key_size (drop (2 * digest_size + key_size) key_block)"
    and "tx_iv \<equiv> take iv_size (drop (2 * digest_size + 2 * key_size) key_block)"
    and "rx_iv \<equiv> take iv_size (drop (2 * digest_size + 2 * key_size + iv_size) key_block)"
  defines "k1 \<equiv> cipher_setkey env (cipher (suite txp)) (cipher_ctx txp) tx_key"
    and "k2 \<equiv> cipher_setkey env (cipher (suite rxp)) (cipher_ctx rxp) rx_key"
  shows "tls_generate_keys env tls =
    (case fst k1 of
       Some rc \<Rightarrow>
         (Some rc, tls\<lparr>tx_cipherspec_pending := txp\<lparr>mac_secret := tx_mac, cipher_ctx := snd k1\<rparr>,
                        rx_cipherspec_pending := rxp\<lparr>mac_secret := rx_mac\<rparr>\<rparr>)
     | None \<Rightarrow>
         (case fst k2 of
            Some rc \<Rightarrow>
              (Some rc,
               tls\<lparr>tx_cipherspec_pending := txp\<lparr>mac_secret := tx_mac, cipher_ctx := snd k1\<rparr>,
                   rx_cipherspec_pending := rxp\<lparr>mac_secret := rx_mac, cipher_ctx := snd k2\<rparr>\<rparr>)
          | None \<Rightarrow>
              (None,
               tls\<lparr>tx_cipherspec_pending :=
                     txp\<lparr>mac_secret := tx_mac,
                         cipher_ctx := cipher_setiv env (cipher (suite txp)) (snd k1) tx_iv\<rparr>,
                   rx_cipherspec_pending :=
                     rxp\<lparr>mac_secret := rx_mac,
                         cipher_ctx := cipher_setiv env (cipher (suite rxp)) (snd k2) rx_iv\<rparr>\<rparr>)))"
  unfolding k1_def k2_def tx_mac_def rx_mac_def tx_key_def rx_key_def tx_iv_def rx_iv_def
    key_block_def
  by (auto simp add: tls_generate_keys_def Let_def txp_def rxp_def digest_size_def key_size_def
      iv_size_def mult_2 add_ac split: prod.splits option.splits)

text \<open>
  C5: when \<open>tls_generate_keys\<close> succeeds, the key block is the PRF output for the master
  secret, the label "key expansion" and the seed server random followed by client
  random; it has exactly \<open>2 * (digest_size + key_size + iv_size)\<close> bytes and is, in this
  order, the TX MAC secret, the RX MAC secret, the TX key, the RX key, the TX IV and the
  RX IV. The pending TX cipher specification holds the TX MAC secret and the context
  keyed with the TX key and given the TX IV; the pending RX cipher specification holds
  the RX ones; nothing else in the session changes.
\<close>

theorem tls_generate_keys_key_block:
  fixes env tls
  defines "txp \<equiv> tx_cipherspec_pending tls" and "rxp \<equiv> rx_cipherspec_pending tls"
  defines "digest_size \<equiv> digestsize (digest (suite txp))"
    and "key_size \<equiv> key_len (suite txp)"
    and "iv_size \<equiv> blocksize (cipher (suite txp))"
  defines "key_block \<equiv>
      tls_prf_label env tls (master_secret tls) (2 * (digest_size + key_size + iv_size))
        ''key expansion'' [server_random tls, client_random tls]"
  defines "tx_mac \<equiv> take digest_size key_block"
    and "rx_mac \<equiv> take digest_size (drop digest_size key_block)"
    and "tx_key \<equiv> take key_size (drop (2 * digest_size) key_block)"
    and "rx_key \<equiv> take key_size (drop (2 * digest_size + key_size) key_block)"
    and "tx_iv \<equiv> take iv_size (drop (2 * digest_size + 2 * key_size) key_block)"
    and "rx_iv \<equiv> take iv_size (drop (2 * digest_size + 2 * key_size + iv_size) key_block)"
  assumes "fst (tls_generate_keys env tls) = None"
  shows "length key_block = 2 * (digest_size + key_size + iv_size)
       \<and> key_block = spec_prf env (version tls) (master_secret tls)
                        (label_bytes ''key expansion'' @ server_random tls @ client_random tls)
                        (2 * (digest_size + key_size + iv_size))
       \<and> key_block = tx_mac @ rx_mac @ tx_key @ rx_key @ tx_iv @ rx_iv
       \<and> snd (tls_generate_keys env tls) =
           tls\<lparr>tx_cipherspec_pending :=
                 txp\<lparr>mac_secret := tx_mac,
                     cipher_ctx := cipher_setiv env (cipher (suite txp))
                       (snd (cipher_setkey env (cipher (suite txp)) (cipher_ctx txp) tx_key))
                       tx_iv\<rparr>,
               rx_cipherspec_pending :=
                 rxp\<lparr>mac_secret := rx_mac,
                     cipher_ctx := cipher_setiv env (cipher (suite rxp))
                       (snd (cipher_setkey env (cipher (suite rxp)) (cipher_ctx rxp) rx_key))
                       rx_iv\<rparr>\<rparr>"
proof -
  define k1 where "k1 = cipher_setkey env (cipher (suite txp)) (cipher_ctx txp) tx_key"
  define k2 where "k2 = cipher_setkey env (cipher (suite rxp)) (cipher_ctx rxp) rx_key"
  have two: "2 * n = n + n" for n :: nat by simp
  have u': "tls_generate_keys env tls =
    (case fst k1 of
       Some rc \<Rightarrow>
         (Some rc, tls\<lparr>tx_cipherspec_pending := txp\<lparr>mac_secret := tx_mac, cipher_ctx := snd k1\<rparr>,
                        rx_cipherspec_pending := rxp\<lparr>mac_secret := rx_mac\<rparr>\<rparr>)
     | None \<Rightarrow>
         (case fst k2 of
            Some rc \<Rightarrow>
              (Some rc,
               tls\<lparr>tx_cipherspec_pending := txp\<lparr>mac_secret := tx_mac, cipher_ctx := snd k1\<rparr>,
                   rx_cipherspec_pending := rxp\<lparr>mac_secret := rx_mac, cipher_ctx := snd k2\<rparr>\<rparr>)
          | None \<Rightarrow>
              (None,
               tls\<lparr>tx_cipherspec_pending :=
                     txp\<lparr>mac_secret := tx_mac,
                         cipher_ctx := cipher_setiv env (cipher (suite txp)) (snd k1) tx_iv\<rparr>,
                   rx_cipherspec_pending :=
                     rxp\<lparr>mac_secret := rx_mac,
                         cipher_ctx := cipher_setiv env (cipher (suite rxp)) (snd k2) rx_iv\<rparr>\<rparr>)))"
    unfolding k1_def k2_def tx_mac_def rx_mac_def tx_key_def rx_key_def tx_iv_def rx_iv_def
      key_block_def digest_size_def key_size_def iv_size_def txp_def rxp_def
    by (rule tls_generate_keys_unfold)
  have ok: "fst k1 = None" "fst k2 = None"
    using assms(13) unfolding u' by (auto split: option.splits)
  have state: "snd (tls_generate_keys env tls) =
           tls\<lparr>tx_cipherspec_pending :=
                 txp\<lparr>mac_secret := tx_mac,
                     cipher_ctx := cipher_setiv env (cipher (suite txp)) (snd k1) tx_iv\<rparr>,
               rx_cipherspec_pending :=
                 rxp\<lparr>mac_secret := rx_mac,
                     cipher_ctx := cipher_setiv env (cipher (suite rxp)) (snd k2) rx_iv\<rparr>\<rparr>"
    unfolding u' by (simp add: ok)
  have spec: "key_block = spec_prf env (version tls) (master_secret tls)
                        (label_bytes ''key expansion'' @ server_random tls @ client_random tls)
                        (2 * (digest_size + key_size + iv_size))"
    and len: "length key_block = 2 * (digest_size + key_size + iv_size)"
    unfolding key_block_def
    by (simp_all add: tls_prf_label_refines length_spec_prf)
  have split: "xs = take a xs @ take a (drop a xs) @ take b (drop (2 * a) xs)
                 @ take b (drop (2 * a + b) xs) @ take c (drop (2 * a + 2 * b) xs)
                 @ take c (drop (2 * a + 2 * b + c) xs)"
    if "length xs = 2 * (a + b + c)" for xs :: bytes and a b c
  proof -
    have d: "drop m xs = take n (drop m xs) @ drop (m + n) xs" for m n
      by (metis append_take_drop_id drop_drop add.commute)
    have 1: "xs = take a xs @ drop a xs" by simp
    have 2: "drop a xs = take a (drop a xs) @ drop (2 * a) xs"
      using d [of a a] by (simp only: mult_2)
    have 3: "drop (2 * a) xs = take b (drop (2 * a) xs) @ drop (2 * a + b) xs"
      by (rule d)
    have 4: "drop (2 * a + b) xs = take b (drop (2 * a + b) xs) @ drop (2 * a + 2 * b) xs"
      using d [of "2 * a + b" b] by (simp only: mult_2 add.assoc)
    have 5: "drop (2 * a + 2 * b) xs = take c (drop (2 * a + 2 * b) xs) @ drop (2 * a + 2 * b + c) xs"
      by (rule d)
    have 6: "drop (2 * a + 2 * b + c) xs = take c (drop (2 * a + 2 * b + c) xs)"
      using that by simp
    show ?thesis
      by (subst 1, subst 2, subst 3, subst 4, subst 5, subst 6) (rule refl)
  qed
  have parts: "key_block = tx_mac @ rx_mac @ tx_key @ rx_key @ tx_iv @ rx_iv"
    unfolding tx_mac_def rx_mac_def tx_key_def rx_key_def tx_iv_def rx_iv_def
    by (rule split [OF len])
  show ?thesis
    using len spec parts state unfolding k1_def k2_def by (simp only: simp_thms)
qed

theorem tls_generate_keys_key_block_witness:
  "fst (tls_generate_keys example_collaborators example_session) = None
   \<and> length (tls_prf_label example_collaborators example_session (master_secret example_session)
        104 ''key expansion'' [server_random example_session, client_random example_session])
      = 104
   \<and> mac_secret (tx_cipherspec_pending (snd (tls_generate_keys example_collaborators example_session)))
      = take 20 (tls_prf_label example_collaborators example_session
          (master_secret example_session) 104 ''key expansion''
          [server_random example_session, client_random example_session])
   \<and> mac_secret (rx_cipherspec_pending (snd (tls_generate_keys example_collaborators example_session)))
      = take 20 (drop 20 (tls_prf_label example_collaborators example_session
          (master_secret example_session) 104 ''key expansion''
          [server_random example_session, client_random example_session]))"
proof -
  have ok: "fst (tls_generate_keys example_collaborators example_session) = None"
    by (rule tls_generate_keys_ok) (simp add: example_collaborators_def)
  have sizes: "digestsize (digest (suite (tx_cipherspec_pending example_session))) = 20"
    "key_len (suite (tx_cipherspec_pending example_session)) = 16"
    "blocksize (cipher (suite (tx_cipherspec_pending example_session))) = 16"
    by (simp_all add: example_session_def example_cipherspec_def)
  note t = tls_generate_keys_key_block [OF ok, unfolded sizes]
  have total: "2 * (20 + 16 + 16) = (104 :: nat)" by simp
  from t have len: "length (tls_prf_label example_collaborators example_session
        (master_secret example_session) 104 ''key expansion''
        [server_random example_session, client_random example_session]) = 104"
    unfolding total by (rule conjunct1)
  from t have state: "snd (tls_generate_keys example_collaborators example_session) =
      example_session\<lparr>tx_cipherspec_pending := (tx_cipherspec_pending example_session)
          \<lparr>mac_secret := take 20 (tls_prf_label example_collaborators example_session
               (master_secret example_session) 104 ''key expansion''
               [server_random example_session, client_random example_session]),
           cipher_ctx := cipher_ctx (tx_cipherspec_pending
               (snd (tls_generate_keys example_collaborators example_session)))\<rparr>,
        rx_cipherspec_pending := (rx_cipherspec_pending example_session)
          \<lparr>mac_secret := take 20 (drop 20 (tls_prf_label example_collaborators example_session
               (master_secret example_session) 104 ''key expansion''
               [server_random example_session, client_random example_session])),
           cipher_ctx := cipher_ctx (rx_cipherspec_pending
               (snd (tls_generate_keys example_collaborators example_session)))\<rparr>\<rparr>"
    unfolding total by simp
  show ?thesis
    using ok len by (simp add: arg_cong [OF state, of "\<lambda>s. mac_secret (tx_cipherspec_pending s)"]
        arg_cong [OF state, of "\<lambda>s. mac_secret (rx_cipherspec_pending s)"])
qed

section \<open>Change Cipher Spec\<close>

lemma tls_send_plaintext_frame:
  "snd (tls_send_plaintext env tls type data) =
     tls\<lparr>tx_cipherspec := tx_cipherspec (snd (tls_send_plaintext env tls type data)),
         tx_seq := tx_seq (snd (tls_send_plaintext env tls type data)),
         cipherstream_sent := cipherstream_sent (snd (tls_send_plaintext env tls type data))\<rparr>"
  by (simp add: tls_send_plaintext_def Let_def split: option.splits)

lemma tls_send_plaintext_pending:
  "tx_cipherspec_pending (snd (tls_send_plaintext env tls type data)) = tx_cipherspec_pending tls"
  "tx_pending (snd (tls_send_plaintext env tls type data)) = tx_pending tls"
  by (subst tls_send_plaintext_frame, simp)+

lemma tls_change_cipher_ok:
  "suite pending \<noteq> tls_cipher_suite_null \<Longrightarrow>
     tls_change_cipher pending active = (None, tls_clear_cipher active, pending)"
  by (simp add: tls_change_cipher_def)

lemma tls_change_cipher_refused:
  "suite pending = tls_cipher_suite_null \<Longrightarrow>
     tls_change_cipher pending active = (Some ENOTSUP, pending, active)"
  by (simp add: tls_change_cipher_def)

lemma tls_new_change_cipher_ok:
  assumes "suite (rx_cipherspec_pending tls) \<noteq> tls_cipher_suite_null"
  shows "tls_new_change_cipher tls [1] =
           (None, tls\<lparr>rx_cipherspec_pending := tls_clear_cipher (rx_cipherspec tls),
                      rx_cipherspec := rx_cipherspec_pending tls, rx_seq := NOT 0\<rparr>)"
  using assms by (simp add: tls_new_change_cipher_def tls_change_cipher_ok byte_at_def)

text \<open>
  C2, transmission: when \<open>tls_tx_step\<close> runs with a window, with Change Cipher Spec the
  first pending transmission, the record is sent successfully and the pending TX cipher
  specification holds a suite, then afterwards the active TX cipher specification is the
  one that was pending, the pending one is cleared, \<open>tx_seq\<close> is 0 and the Change Cipher
  Spec is no longer pending.
  Reception: when \<open>tls_newdata_process_data\<close> processes a record of type Change Cipher
  Spec that decrypts and splits into the content \<open>[1]\<close> and a MAC equal to the MAC
  recomputed with \<open>rx_seq\<close>, and the pending RX cipher specification holds a suite, then
  \<open>tls_new_change_cipher\<close> makes the pending RX cipher specification the active one and
  sets \<open>rx_seq\<close> to \<open>2 ^ 64 - 1\<close>, and the increment after the record leaves \<open>rx_seq = 0\<close>.
\<close>

theorem change_cipher_sequence_numbers:
  fixes env tls
  defines "sent \<equiv> tls_send_change_cipher env tls"
    and "tlshdr \<equiv> tls_header_of (rx_header tls)"
    and "ciphertext \<equiv> (case rx_data tls of None \<Rightarrow> [] | Some data \<Rightarrow> data)"
  defines "record_len \<equiv> unat (hdr_length tlshdr)"
  defines "decrypted \<equiv> cipher_decrypt env (cipher (suite (rx_cipherspec tls)))
                          (cipher_ctx (rx_cipherspec tls)) (fit record_len ciphertext)"
  defines "tls1 \<equiv> tls\<lparr>rx_cipherspec := (rx_cipherspec tls)\<lparr>cipher_ctx := fst decrypted\<rparr>\<rparr>"
  defines "split \<equiv> (if is_stream_cipher (cipher (suite (rx_cipherspec tls)))
                      then tls_split_stream tls1 (fit record_len (snd decrypted))
                      else tls_split_block tls1 (fit record_len (snd decrypted)))"
  defines "mac_len \<equiv> digestsize (digest (suite (rx_cipherspec tls)))"
  shows "(xfer_window env \<noteq> 0
          \<and> tx_pending tls AND TLS_TX_CLIENT_HELLO = 0
          \<and> tx_pending tls AND TLS_TX_CERTIFICATE = 0
          \<and> tx_pending tls AND TLS_TX_CLIENT_KEY_EXCHANGE = 0
          \<and> tx_pending tls AND TLS_TX_CERTIFICATE_VERIFY = 0
          \<and> tx_pending tls AND TLS_TX_CHANGE_CIPHER \<noteq> 0
          \<and> fst sent = None
          \<and> suite (tx_cipherspec_pending tls) \<noteq> tls_cipher_suite_null
          \<longrightarrow> tx_seq (tls_tx_step env tls) = 0
            \<and> tx_cipherspec (tls_tx_step env tls) = tx_cipherspec_pending tls
            \<and> tx_cipherspec_pending (tls_tx_step env tls)
                = tls_clear_cipher (tx_cipherspec (snd sent))
            \<and> tx_pending (tls_tx_step env tls) = tx_pending tls AND NOT TLS_TX_CHANGE_CIPHER
            \<and> shutdown_rc (tls_tx_step env tls) = shutdown_rc tls)
       \<and> (hdr_type tlshdr = 20
          \<and> malloc_ok env record_len
          \<and> (\<exists>mac. split = Inr ([1], mac)
                \<and> take mac_len mac = take mac_len
                     (tls_hmac env (rx_cipherspec tls1) (rx_seq tls)
                        \<lparr>hdr_type = hdr_type tlshdr, hdr_version = hdr_version tlshdr,
                         hdr_length = 1\<rparr> [1]))
          \<and> suite (rx_cipherspec_pending tls) \<noteq> tls_cipher_suite_null
          \<longrightarrow> tls_new_ciphertext env tls tlshdr ciphertext
                = (None, tls1\<lparr>rx_cipherspec_pending := tls_clear_cipher (rx_cipherspec tls1),
                              rx_cipherspec := rx_cipherspec_pending tls, rx_seq := 2 ^ 64 - 1\<rparr>)
            \<and> fst (tls_newdata_process_data env tls) = None
            \<and> rx_seq (snd (tls_newdata_process_data env tls)) = 0
            \<and> rx_cipherspec (snd (tls_newdata_process_data env tls)) = rx_cipherspec_pending tls
            \<and> rx_cipherspec_pending (snd (tls_newdata_process_data env tls))
                = tls_clear_cipher (rx_cipherspec tls1))"
proof (intro conjI impI)
  assume a: "xfer_window env \<noteq> 0
          \<and> tx_pending tls AND TLS_TX_CLIENT_HELLO = 0
          \<and> tx_pending tls AND TLS_TX_CERTIFICATE = 0
          \<and> tx_pending tls AND TLS_TX_CLIENT_KEY_EXCHANGE = 0
          \<and> tx_pending tls AND TLS_TX_CERTIFICATE_VERIFY = 0
          \<and> tx_pending tls AND TLS_TX_CHANGE_CIPHER \<noteq> 0
          \<and> fst sent = None
          \<and> suite (tx_cipherspec_pending tls) \<noteq> tls_cipher_suite_null"
  have p: "tx_cipherspec_pending (snd sent) = tx_cipherspec_pending tls"
    "tx_pending (snd sent) = tx_pending tls"
    unfolding sent_def tls_send_change_cipher_def by (rule tls_send_plaintext_pending)+
  have sh: "shutdown_rc (snd sent) = shutdown_rc tls"
    unfolding sent_def tls_send_change_cipher_def
    by (subst tls_send_plaintext_frame) simp
  have cc: "tls_change_cipher (tx_cipherspec_pending (snd sent)) (tx_cipherspec (snd sent))
              = (None, tls_clear_cipher (tx_cipherspec (snd sent)), tx_cipherspec_pending tls)"
    using a p by (simp add: tls_change_cipher_ok)
  have step: "tls_tx_step env tls =
      (let t = (snd sent)\<lparr>tx_cipherspec_pending := tls_clear_cipher (tx_cipherspec (snd sent)),
                  tx_cipherspec := tx_cipherspec_pending tls, tx_seq := 0,
                  tx_pending := tx_pending tls AND NOT TLS_TX_CHANGE_CIPHER\<rparr>
       in if tx_pending t \<noteq> 0 then tls_tx_resume t else t)"
    using a cc p unfolding tls_tx_step_def sent_def
    by (cases "tls_send_change_cipher env tls") (simp add: Let_def)
  show "tx_seq (tls_tx_step env tls) = 0"
    and "tx_cipherspec (tls_tx_step env tls) = tx_cipherspec_pending tls"
    and "tx_cipherspec_pending (tls_tx_step env tls) = tls_clear_cipher (tx_cipherspec (snd sent))"
    and "tx_pending (tls_tx_step env tls) = tx_pending tls AND NOT TLS_TX_CHANGE_CIPHER"
    and "shutdown_rc (tls_tx_step env tls) = shutdown_rc tls"
    unfolding step by (simp_all add: Let_def tls_tx_resume_def sh)
next
  assume a: "hdr_type tlshdr = 20
          \<and> malloc_ok env record_len
          \<and> (\<exists>mac. split = Inr ([1], mac)
                \<and> take mac_len mac = take mac_len
                     (tls_hmac env (rx_cipherspec tls1) (rx_seq tls)
                        \<lparr>hdr_type = hdr_type tlshdr, hdr_version = hdr_version tlshdr,
                         hdr_length = 1\<rparr> [1]))
          \<and> suite (rx_cipherspec_pending tls) \<noteq> tls_cipher_suite_null"
  then obtain mac where s: "split = Inr ([1], mac)"
    and m: "take mac_len mac = take mac_len
                     (tls_hmac env (rx_cipherspec tls1) (rx_seq tls)
                        \<lparr>hdr_type = hdr_type tlshdr, hdr_version = hdr_version tlshdr,
                         hdr_length = 1\<rparr> [1])"
    by blast
  have pend: "suite (rx_cipherspec_pending tls1) \<noteq> tls_cipher_suite_null"
    using a by (simp add: tls1_def)
  have ty: "ucast (hdr_type tlshdr) = TLS_TYPE_CHANGE_CIPHER"
    using a by (simp add: TLS_TYPE_CHANGE_CIPHER_def)
  have rec: "tls_new_record env tls1 (ucast (hdr_type tlshdr)) [1] =
       (None, tls1\<lparr>rx_cipherspec_pending := tls_clear_cipher (rx_cipherspec tls1),
                   rx_cipherspec := rx_cipherspec_pending tls1, rx_seq := NOT 0\<rparr>)"
    unfolding ty tls_new_record_def using tls_new_change_cipher_ok [OF pend] by simp
  have max: "(NOT 0 :: 64 word) = 2 ^ 64 - 1" by simp
  have ct: "tls_new_ciphertext env tls tlshdr ciphertext
        = (None, tls1\<lparr>rx_cipherspec_pending := tls_clear_cipher (rx_cipherspec tls1),
                      rx_cipherspec := rx_cipherspec_pending tls, rx_seq := 2 ^ 64 - 1\<rparr>)"
    using a s m rec
    unfolding tls_new_ciphertext_def Let_def record_len_def [symmetric] decrypted_def [symmetric]
      tls1_def [symmetric] split_def [symmetric] mac_len_def [symmetric]
    by (simp add: tls1_def max)
  show "tls_new_ciphertext env tls tlshdr ciphertext
        = (None, tls1\<lparr>rx_cipherspec_pending := tls_clear_cipher (rx_cipherspec tls1),
                      rx_cipherspec := rx_cipherspec_pending tls, rx_seq := 2 ^ 64 - 1\<rparr>)"
    by (rule ct)
  show "fst (tls_newdata_process_data env tls) = None"
    and "rx_seq (snd (tls_newdata_process_data env tls)) = 0"
    and "rx_cipherspec (snd (tls_newdata_process_data env tls)) = rx_cipherspec_pending tls"
    and "rx_cipherspec_pending (snd (tls_newdata_process_data env tls))
           = tls_clear_cipher (rx_cipherspec tls1)"
    unfolding tls_newdata_process_data_def tlshdr_def [symmetric] ciphertext_def [symmetric] ct
    by simp_all
qed
theorem change_cipher_sequence_numbers_witness:
  "tx_seq example_session = 3
   \<and> tx_seq (tls_tx_step example_collaborators example_session) = 0
   \<and> tx_cipherspec (tls_tx_step example_collaborators example_session) = example_cipherspec
   \<and> rx_seq example_session = 4
   \<and> fst (tls_newdata_process_data example_collaborators example_session) = None
   \<and> rx_seq (snd (tls_newdata_process_data example_collaborators example_session)) = 0
   \<and> rx_cipherspec (snd (tls_newdata_process_data example_collaborators example_session))
        = example_cipherspec"
proof -
  have window: "xfer_window example_collaborators \<noteq> 0"
    by (simp add: example_collaborators_def)
  have pending: "tx_pending example_session AND TLS_TX_CLIENT_HELLO = 0"
    "tx_pending example_session AND TLS_TX_CERTIFICATE = 0"
    "tx_pending example_session AND TLS_TX_CLIENT_KEY_EXCHANGE = 0"
    "tx_pending example_session AND TLS_TX_CERTIFICATE_VERIFY = 0"
    "tx_pending example_session AND TLS_TX_CHANGE_CIPHER \<noteq> 0"
    by code_simp+
  have sent: "fst (tls_send_change_cipher example_collaborators example_session) = None"
    by code_simp
  have suites: "suite (tx_cipherspec_pending example_session) \<noteq> tls_cipher_suite_null"
    "suite (rx_cipherspec_pending example_session) \<noteq> tls_cipher_suite_null"
    by code_simp+
  have specs: "tx_cipherspec_pending example_session = example_cipherspec"
    "rx_cipherspec_pending example_session = example_cipherspec"
    "tx_seq example_session = 3" "rx_seq example_session = 4"
    by (simp_all add: example_session_def)
  have hdr: "hdr_type (tls_header_of (rx_header example_session)) = 20"
    by code_simp
  have alloc: "malloc_ok example_collaborators
                 (unat (hdr_length (tls_header_of (rx_header example_session))))"
    by (simp add: example_collaborators_def)
  have mac_len: "digestsize (digest (suite (rx_cipherspec example_session))) = 0"
    by code_simp
  have stream: "is_stream_cipher (cipher (suite (rx_cipherspec example_session)))"
    by code_simp
  have split: "tls_split_stream
        (example_session\<lparr>rx_cipherspec := (rx_cipherspec example_session)
           \<lparr>cipher_ctx := fst (cipher_decrypt example_collaborators
               (cipher (suite (rx_cipherspec example_session)))
               (cipher_ctx (rx_cipherspec example_session))
               (fit (unat (hdr_length (tls_header_of (rx_header example_session))))
                  (case rx_data example_session of None \<Rightarrow> [] | Some data \<Rightarrow> data)))\<rparr>\<rparr>)
        (fit (unat (hdr_length (tls_header_of (rx_header example_session))))
           (snd (cipher_decrypt example_collaborators
               (cipher (suite (rx_cipherspec example_session)))
               (cipher_ctx (rx_cipherspec example_session))
               (fit (unat (hdr_length (tls_header_of (rx_header example_session))))
                  (case rx_data example_session of None \<Rightarrow> [] | Some data \<Rightarrow> data)))))
       = Inr ([1], [])"
    by code_simp
  show ?thesis
    using change_cipher_sequence_numbers [of example_collaborators example_session]
      window pending sent suites hdr alloc
    by (simp add: specs mac_len stream split)
qed

section \<open>The handshake transcript\<close>

























end
